theory Spec2Isabelle
  imports Complex_Main "HOL-Library.Multiset" "HOL-Library.Char_ord" "HOL-Library.List_Lexorder" "HOL-Library.Product_Lexorder"
begin

section \<open>Errors and results\<close>

text \<open>
  A JavaScript exception is a value: the class of the thrown object and its message.
  \<open>Error\<close> is the plain \<^verbatim>\<open>new Error(msg)\<close>, \<open>ValidationError\<close> the class of
  \<^verbatim>\<open>types.ts\<close>. A function that may throw returns \<open>error + 'a\<close>.
\<close>

datatype error = Error string | ValidationError string

fun errorMessage :: "error \<Rightarrow> string" where
  "errorMessage (Error m) = m"
| "errorMessage (ValidationError m) = m"

text \<open>Decimal rendering of a number inside a template string.\<close>

fun digitChar :: "nat \<Rightarrow> char" where
  "digitChar n = (''0123456789'' ! (n mod 10))"

function decimalNat :: "nat \<Rightarrow> string" where
  "decimalNat n = (if n < 10 then [digitChar n] else decimalNat (n div 10) @ [digitChar n])"
  by pat_completeness auto
termination
  by (relation "measure (\<lambda>n. n)") auto

definition decimal :: "int \<Rightarrow> string" where
  "decimal i = (if i < 0 then CHR ''-'' # decimalNat (nat (- i)) else decimalNat (nat i))"

text \<open>\<^verbatim>\<open>a || b\<close> on strings that may be absent: the empty string is falsy.\<close>

definition orElse :: "string option \<Rightarrow> string \<Rightarrow> string" where
  "orElse a b = (case a of None \<Rightarrow> b | Some s \<Rightarrow> if s = [] then b else s)"

section \<open>Whaple.normalizePhoneNumber\<close>

text \<open>
  \<^verbatim>\<open>\d\<close> of a JavaScript regular expression is the ten ASCII digits. Every other
  code unit but \<^verbatim>\<open>+\<close> is removed by \<^verbatim>\<open>replace(/[^\d+]/g, '')\<close>, so the encoding of
  characters beyond ASCII does not matter to the result.
\<close>

definition isDigit :: "char \<Rightarrow> bool" where
  "isDigit c = (c \<in> set ''0123456789'')"

definition keptChar :: "char \<Rightarrow> bool" where
  "keptChar c = (isDigit c \<or> c = CHR ''+'')"

definition startsWith :: "string \<Rightarrow> string \<Rightarrow> bool" where
  "startsWith s p = (take (length p) s = p)"

definition normalizePhoneNumber :: "string \<Rightarrow> error + string" where
  "normalizePhoneNumber number =
     (if number = [] then Inl (ValidationError ''Phone number is required'')
      else
        let normalized = filter keptChar number;
            normalized = (if \<not> startsWith normalized ''+'' then CHR ''+'' # normalized
                          else normalized)
        in Inr normalized)"

text \<open>The canonical form of the specification: a leading \<^verbatim>\<open>+\<close> followed only by digits.\<close>

definition canonical :: "string \<Rightarrow> bool" where
  "canonical s = (case s of [] \<Rightarrow> False | c # cs \<Rightarrow> c = CHR ''+'' \<and> list_all isDigit cs)"

text \<open>No \<^verbatim>\<open>+\<close> comes after the first character of the input that the filter keeps.\<close>

definition plusOnlyLeading :: "string \<Rightarrow> bool" where
  "plusOnlyLeading d = (CHR ''+'' \<notin> set (tl (filter keptChar d)))"

section \<open>Messages, the durable store and the world of one call\<close>

datatype priority = High | Medium | Low

datatype status = Pending | Processing | Sent | Failed

datatype deliveryMethod = Direct | Queued

record SendMessageOptions =
  optSource :: "string option"
  optTimestamp :: "int option"
  optPriority :: "priority option"
  optRetryCount :: "nat option"
  optOther :: "(string \<times> string) list"

record MessageData =
  number :: string
  message :: string
  options :: SendMessageOptions
  source :: string
  version :: string
  timestamp :: int
  priority :: priority

text \<open>
  \<open>QueueMessage\<close> is \<^verbatim>\<open>{...messageData, id, timestamp, status, retryCount, position}\<close>
  and the record written under \<^verbatim>\<open>pending/<id>\<close> is
  \<^verbatim>\<open>{...queueData, queuedAt, attempts}\<close>: each spread is a record extension.
\<close>

record QueueMessage = MessageData +
  id' :: string
  status :: status
  retryCount :: nat
  position :: int

record StoredMessage = QueueMessage +
  queuedAt :: int
  attempts :: nat

record SendMessageResult =
  success :: bool
  resMethod :: deliveryMethod
  messageId :: string
  resTimestamp :: int
  resPosition :: "int option"
  error :: "string option"

record heartbeat =
  hbAlive :: bool
  hbLastSeen :: "int option"
  hbLastProcessed :: "int option"
  hbNextProcessingTime :: "int option"

text \<open>
  The object that \<^verbatim>\<open>getQueueStatus\<close> builds. \<open>serverAlive\<close> is the property that
  \<^verbatim>\<open>QueueStatusWithServer\<close> declares and \<^verbatim>\<open>evaluateConditions\<close> reads through a cast:
  \<open>None\<close> is a property the object does not have (\<^verbatim>\<open>undefined\<close>).
\<close>

record QueueStatus =
  totalMessages :: nat
  pendingMessages :: nat
  processingMessages :: nat
  sentMessages :: nat
  failedMessages :: nat
  isProcessing :: bool
  lastProcessed :: "int option"
  nextProcessingTime :: "int option"
  serverAlive :: "bool option"

text \<open>The outcome of the health request: a response with its status code, a timeout, an
  error event, or an exception while the request is built (an invalid URL).\<close>

datatype probe = Response nat | Timeout | RequestError string | Thrown string

text \<open>The parsed body that \<^verbatim>\<open>makeApiRequest\<close> resolves with.\<close>

record ApiResponse =
  apiSuccess :: bool
  apiError :: "string option"
  apiMessageId :: "string option"
  apiKeyId :: "string option"
  apiMessageTimestamp :: "int option"

text \<open>
  Everything outside the SDK that one call reads or writes. A partition of the store is
  the list of its children in the order in which a snapshot's \<^verbatim>\<open>val()\<close> enumerates their
  keys (\<^verbatim>\<open>Object.keys\<close>); keys are distinct. \<open>dbFault n\<close> is the message with which the
  \<open>n\<close>-th database operation rejects, if it does. \<open>uuids\<close> is the sequence of values of
  \<^verbatim>\<open>randomUUID()\<close>. \<open>now\<close> is \<^verbatim>\<open>Date.now()\<close>, taken as constant during a call.
  \<open>healthProbe\<close> is the outcome of a health request made now and \<open>probes\<close> counts the
  health requests made. \<open>apiOutcome\<close> is the outcome of a request to the send endpoint and
  \<open>apiSent\<close> lists the payloads of those requests (number, message, options). \<open>sockOutcome\<close> is the outcome of the socket's
  \<^verbatim>\<open>sendMessage\<close> (the id of the message key, when there is one) and \<open>dispatched\<close>
  lists the messages handed to the socket.
\<close>

record world =
  now :: int
  pending :: "(string \<times> StoredMessage) list"
  processing :: "(string \<times> StoredMessage) list"
  heartbeatNode :: "heartbeat option"
  dbFault :: "nat \<Rightarrow> string option"
  dbOps :: nat
  uuids :: "nat \<Rightarrow> string"
  uuidCount :: nat
  lastCheck :: "int option"
  lastResult :: "bool option"
  cacheTimeMs :: int
  healthProbe :: probe
  probes :: nat
  apiOutcome :: "error + ApiResponse"
  apiSent :: "(string \<times> string \<times> SendMessageOptions) list"
  sockOutcome :: "error + string option"
  dispatched :: "(string \<times> string) list"

subsection \<open>Database operations\<close>

definition oncePending :: "world \<Rightarrow> (error + (string \<times> StoredMessage) list) \<times> world" where
  "oncePending w =
     (case dbFault w (dbOps w) of
        Some m \<Rightarrow> (Inl (Error m), w\<lparr>dbOps := Suc (dbOps w)\<rparr>)
      | None \<Rightarrow> (Inr (pending w), w\<lparr>dbOps := Suc (dbOps w)\<rparr>))"

definition onceProcessing :: "world \<Rightarrow> (error + (string \<times> StoredMessage) list) \<times> world" where
  "onceProcessing w =
     (case dbFault w (dbOps w) of
        Some m \<Rightarrow> (Inl (Error m), w\<lparr>dbOps := Suc (dbOps w)\<rparr>)
      | None \<Rightarrow> (Inr (processing w), w\<lparr>dbOps := Suc (dbOps w)\<rparr>))"

definition onceHeartbeat :: "world \<Rightarrow> (error + heartbeat option) \<times> world" where
  "onceHeartbeat w =
     (case dbFault w (dbOps w) of
        Some m \<Rightarrow> (Inl (Error m), w\<lparr>dbOps := Suc (dbOps w)\<rparr>)
      | None \<Rightarrow> (Inr (heartbeatNode w), w\<lparr>dbOps := Suc (dbOps w)\<rparr>))"

text \<open>\<^verbatim>\<open>set\<close> on a child: an existing key keeps its place, a new key is enumerated last.\<close>

fun putChild :: "string \<Rightarrow> 'a \<Rightarrow> (string \<times> 'a) list \<Rightarrow> (string \<times> 'a) list" where
  "putChild k v [] = [(k, v)]"
| "putChild k v ((k', v') # kvs) =
     (if k' = k then (k, v) # kvs else (k', v') # putChild k v kvs)"

definition setPending :: "string \<Rightarrow> StoredMessage \<Rightarrow> world \<Rightarrow> (error + unit) \<times> world" where
  "setPending k v w =
     (case dbFault w (dbOps w) of
        Some m \<Rightarrow> (Inl (Error m), w\<lparr>dbOps := Suc (dbOps w)\<rparr>)
      | None \<Rightarrow> (Inr (), w\<lparr>dbOps := Suc (dbOps w), pending := putChild k v (pending w)\<rparr>))"

section \<open>QueueManager\<close>

definition generateMessageId :: "world \<Rightarrow> string \<times> world" where
  "generateMessageId w = (uuids w (uuidCount w), w\<lparr>uuidCount := Suc (uuidCount w)\<rparr>)"

text \<open>\<^verbatim>\<open>Array.prototype.indexOf\<close>.\<close>

fun indexOf :: "'a list \<Rightarrow> 'a \<Rightarrow> int" where
  "indexOf [] x = - 1"
| "indexOf (y # ys) x =
     (if y = x then 0 else (let i = indexOf ys x in if i < 0 then - 1 else i + 1))"

text \<open>\<^verbatim>\<open>messages[a].queuedAt\<close> for a key of the snapshot (the comparator is only ever called
  on keys of \<^verbatim>\<open>messages\<close>).\<close>

definition queuedAtOf :: "(string \<times> StoredMessage) list \<Rightarrow> string \<Rightarrow> int" where
  "queuedAtOf messages a = (case map_of messages a of Some m \<Rightarrow> queuedAt m | None \<Rightarrow> 0)"

text \<open>
  \<^verbatim>\<open>Object.keys(messages).sort((a, b) => messages[a].queuedAt - messages[b].queuedAt)\<close>:
  the sort of ECMAScript 2019 is stable, as \<open>sort_key\<close> is. A snapshot with no child does
  not exist. A rejected read is caught and gives \<open>-1\<close>.
\<close>

definition getQueuePosition :: "string \<Rightarrow> world \<Rightarrow> int \<times> world" where
  "getQueuePosition msgId w =
     (case oncePending w of
        (Inl e, w') \<Rightarrow> (- 1, w')
      | (Inr messages, w') \<Rightarrow>
          if messages = [] then (- 1, w')
          else
            let messageIds = sort_key (queuedAtOf messages) (map fst messages)
            in (indexOf messageIds msgId, w'))"

text \<open>The object \<^verbatim>\<open>queueData\<close> of \<^verbatim>\<open>addMessage\<close>, and the record written from it.\<close>

definition queueData :: "MessageData \<Rightarrow> string \<Rightarrow> int \<Rightarrow> int \<Rightarrow> QueueMessage" where
  "queueData messageData msgId t pos =
     \<lparr>number = number messageData, message = message messageData,
      options = options messageData, source = source messageData,
      version = version messageData, timestamp = t, priority = priority messageData,
      id' = msgId, status = Pending, retryCount = 0, position = pos\<rparr>"

definition pendingRecord :: "QueueMessage \<Rightarrow> int \<Rightarrow> StoredMessage" where
  "pendingRecord qd t = QueueMessage.extend qd (StoredMessage.fields t 0)"

definition addMessage :: "MessageData \<Rightarrow> world \<Rightarrow> (error + SendMessageResult) \<times> world" where
  "addMessage messageData w =
     (let (msgId, w1) = generateMessageId w;
          (pos, w2) = getQueuePosition msgId w1;
          qd = queueData messageData msgId (now w2) pos
      in case setPending msgId (pendingRecord qd (now w2)) w2 of
           (Inl e, w3) \<Rightarrow> (Inl (Error (''Failed to queue message: '' @ errorMessage e)), w3)
         | (Inr u, w3) \<Rightarrow>
             (let (pos', w4) = getQueuePosition msgId w3
              in (Inr \<lparr>success = True, resMethod = Queued, messageId = msgId,
                        resTimestamp = timestamp qd, resPosition = Some pos',
                        error = None\<rparr>, w4)))"

text \<open>The world in which the second rank lookup of \<open>addMessage\<close> runs: the id is
  generated, the first lookup and the write are done.\<close>

definition afterWrite :: "MessageData \<Rightarrow> world \<Rightarrow> world" where
  "afterWrite md w =
     w\<lparr>uuidCount := Suc (uuidCount w), dbOps := Suc (Suc (dbOps w)),
       pending := putChild (uuids w (uuidCount w))
                    (pendingRecord
                       (queueData md (uuids w (uuidCount w)) (now w)
                          (fst (getQueuePosition (uuids w (uuidCount w)) w)))
                       (now w))
                    (pending w)\<rparr>"

text \<open>The liveness of the worker as \<^verbatim>\<open>getQueueStatus\<close> computes it from the heartbeat.\<close>

definition isServerAlive :: "heartbeat option \<Rightarrow> int \<Rightarrow> bool" where
  "isServerAlive hb t =
     (case hb of
        None \<Rightarrow> False
      | Some h \<Rightarrow> hbAlive h \<and> t - (case hbLastSeen h of None \<Rightarrow> 0 | Some l \<Rightarrow> l) < 60000)"

text \<open>\<^verbatim>\<open>x || undefined\<close> on a number that may be absent: \<open>0\<close> is falsy.\<close>

definition orUndefined :: "int option \<Rightarrow> int option" where
  "orUndefined x = (case x of None \<Rightarrow> None | Some v \<Rightarrow> if v = 0 then None else Some v)"

definition emptyStatus :: QueueStatus where
  "emptyStatus =
     \<lparr>totalMessages = 0, pendingMessages = 0, processingMessages = 0, sentMessages = 0,
      failedMessages = 0, isProcessing = False, lastProcessed = None,
      nextProcessingTime = None, serverAlive = None\<rparr>"

text \<open>
  The three reads of \<^verbatim>\<open>Promise.all\<close> are all started; one rejection rejects the whole,
  and the \<^verbatim>\<open>catch\<close> answers with the empty status. \<open>isServerAlive\<close> is computed, as in
  the source, and the returned object has no property for it.
\<close>

definition getQueueStatus :: "world \<Rightarrow> QueueStatus \<times> world" where
  "getQueueStatus w =
     (let (pendingSnap, w1) = oncePending w;
          (processingSnap, w2) = onceProcessing w1;
          (heartbeatSnap, w3) = onceHeartbeat w2
      in case (pendingSnap, processingSnap, heartbeatSnap) of
           (Inr pend, Inr proc, Inr hb) \<Rightarrow>
             (let pendingCount = length pend;
                  processingCount = length proc;
                  alive = isServerAlive hb (now w3)
              in (\<lparr>totalMessages = pendingCount + processingCount,
                   pendingMessages = pendingCount,
                   processingMessages = processingCount,
                   sentMessages = 0, failedMessages = 0,
                   isProcessing = (processingCount > 0),
                   lastProcessed = orUndefined (Option.bind hb hbLastProcessed),
                   nextProcessingTime = orUndefined (Option.bind hb hbNextProcessingTime),
                   serverAlive = None\<rparr>, w3))
         | _ \<Rightarrow> (emptyStatus, w3))"

record ConditionalAddConditions =
  custom :: "(QueueStatus \<Rightarrow> error + bool) option"

record ConditionalAddResult =
  caSuccess :: bool
  caMethod :: string
  caReason :: "string option"
  caQueueStatus :: "QueueStatus option"
  caMessageId :: "string option"
  caTimestamp :: "int option"
  caPosition :: "int option"

text \<open>
  A caller's predicate may throw: it returns \<open>error + bool\<close>. \<^verbatim>\<open>!x\<close> of a property that
  is absent is true.
\<close>

definition evaluateConditions :: "QueueStatus \<Rightarrow> ConditionalAddConditions \<Rightarrow> bool \<times> string" where
  "evaluateConditions queueStatus conditions =
     (case custom conditions of
        None \<Rightarrow>
          if \<not> (case serverAlive queueStatus of None \<Rightarrow> False | Some b \<Rightarrow> b)
          then (True, ''server_offline'')
          else if totalMessages queueStatus > 0 then (True, ''queue_not_empty'')
          else (False, ''server_online_queue_empty'')
      | Some f \<Rightarrow>
          (case f queueStatus of
             Inr customResult \<Rightarrow>
               (customResult,
                if customResult then ''custom_condition_met'' else ''custom_condition_failed'')
           | Inl e \<Rightarrow> (False, ''custom_condition_error: '' @ errorMessage e)))"

definition conditionalAdd ::
  "MessageData \<Rightarrow> ConditionalAddConditions \<Rightarrow> world \<Rightarrow> (error + ConditionalAddResult) \<times> world" where
  "conditionalAdd messageData conditions w =
     (let (queueStatus, w1) = getQueueStatus w;
          shouldAdd = evaluateConditions queueStatus conditions
      in if fst shouldAdd then
           (case addMessage messageData w1 of
              (Inl e, w2) \<Rightarrow>
                (Inl (Error (''Conditional add failed: '' @ errorMessage e)), w2)
            | (Inr result, w2) \<Rightarrow>
                (Inr \<lparr>caSuccess = True, caMethod = ''queued'', caReason = None,
                      caQueueStatus = None, caMessageId = Some (messageId result),
                      caTimestamp = Some (resTimestamp result),
                      caPosition = resPosition result\<rparr>, w2))
         else
           (Inr \<lparr>caSuccess = False, caMethod = ''condition_failed'',
                 caReason = Some (snd shouldAdd), caQueueStatus = Some queueStatus,
                 caMessageId = None, caTimestamp = None, caPosition = None\<rparr>, w1))"

text \<open>
  The rank that the specification describes: pending records in ascending \<open>queuedAt\<close>,
  equal values in the lexical order of their ids.
\<close>

definition specPosition :: "(string \<times> StoredMessage) list \<Rightarrow> string \<Rightarrow> int" where
  "specPosition messages msgId =
     indexOf (sort_key (\<lambda>a. (queuedAtOf messages a, a)) (map fst messages)) msgId"


section \<open>HealthChecker\<close>

text \<open>\<^verbatim>\<open>!this.cache.lastCheck\<close> is true of \<^verbatim>\<open>null\<close> and of \<open>0\<close>.\<close>

definition isCacheValid :: "world \<Rightarrow> bool" where
  "isCacheValid w =
     (case lastCheck w of
        None \<Rightarrow> False
      | Some t \<Rightarrow> if t = 0 then False else now w - t < cacheTimeMs w)"

text \<open>
  The promise of \<^verbatim>\<open>checkServerHealth\<close> resolves \<^verbatim>\<open>true\<close> on status 200 and \<^verbatim>\<open>false\<close> on any
  other status, on a timeout and on an error event; an exception while the request is
  built rejects it.
\<close>

definition checkServerHealth :: "world \<Rightarrow> (error + bool) \<times> world" where
  "checkServerHealth w =
     (case healthProbe w of
        Thrown m \<Rightarrow> (Inl (Error m), w\<lparr>probes := Suc (probes w)\<rparr>)
      | Response code \<Rightarrow> (Inr (code = 200), w\<lparr>probes := Suc (probes w)\<rparr>)
      | Timeout \<Rightarrow> (Inr False, w\<lparr>probes := Suc (probes w)\<rparr>)
      | RequestError m \<Rightarrow> (Inr False, w\<lparr>probes := Suc (probes w)\<rparr>))"

text \<open>A cached \<^verbatim>\<open>null\<close> result is falsy wherever the router reads it: it is \<open>False\<close> here.\<close>

definition isServerHealthy :: "world \<Rightarrow> bool \<times> world" where
  "isServerHealthy w =
     (if isCacheValid w then ((case lastResult w of None \<Rightarrow> False | Some b \<Rightarrow> b), w)
      else
        (case checkServerHealth w of
           (Inr healthResult, w1) \<Rightarrow>
             (healthResult, w1\<lparr>lastCheck := Some (now w1), lastResult := Some healthResult\<rparr>)
         | (Inl e, w1) \<Rightarrow>
             (False, w1\<lparr>lastCheck := Some (now w1), lastResult := Some False\<rparr>)))"

text \<open>A failing probe in the words of the specification: a timeout, a network error
  (also one raised while the request is built) or a status that is not a success.\<close>

definition probeFailed :: "probe \<Rightarrow> bool" where
  "probeFailed p = (case p of Response code \<Rightarrow> \<not> (200 \<le> code \<and> code < 300) | _ \<Rightarrow> True)"

section \<open>ApiClient\<close>

record ApiSendResult =
  asMessageId :: string
  asTimestamp :: int

text \<open>The request to \<^verbatim>\<open>/api/send-message\<close> with the body
  \<^verbatim>\<open>{number, message, ...options}\<close>.\<close>

definition makeApiRequest ::
  "string \<Rightarrow> string \<Rightarrow> SendMessageOptions \<Rightarrow> world \<Rightarrow> (error + ApiResponse) \<times> world" where
  "makeApiRequest num msg opts w =
     (apiOutcome w, w\<lparr>apiSent := apiSent w @ [(num, msg, opts)]\<rparr>)"

text \<open>
  \<^verbatim>\<open>ApiClient.sendMessage\<close>: the error of a response without \<^verbatim>\<open>success\<close> is thrown inside
  the \<^verbatim>\<open>try\<close>, so it is wrapped by the \<^verbatim>\<open>catch\<close> like a rejected request.
\<close>

definition apiSendMessage ::
  "string \<Rightarrow> string \<Rightarrow> SendMessageOptions \<Rightarrow> world \<Rightarrow> (error + ApiSendResult) \<times> world" where
  "apiSendMessage num msg opts w =
     (case makeApiRequest num msg opts w of
        (Inl e, w1) \<Rightarrow> (Inl (Error (''API request failed: '' @ errorMessage e)), w1)
      | (Inr response, w1) \<Rightarrow>
          if \<not> apiSuccess response then
            (Inl (Error (''API request failed: ''
                          @ orElse (apiError response) ''API request failed'')), w1)
          else
            (Inr \<lparr>asMessageId =
                     orElse (apiMessageId response)
                       (orElse (apiKeyId response) (''api-'' @ decimal (now w1))),
                   asTimestamp =
                     (case orUndefined (apiMessageTimestamp response) of
                        None \<Rightarrow> now w1 | Some t \<Rightarrow> t)\<rparr>, w1))"

section \<open>WhatsAppConnection\<close>

text \<open>
  The object's fields, and the part of the runtime that its methods drive: the timers set
  by \<^verbatim>\<open>setTimeout\<close> and not yet fired or cleared, each with its delay and its callback.
  \<open>sock\<close> is the socket the object holds (numbered in order of creation), \<open>reconnectTimeout\<close>
  the handle of the timer set last by \<open>scheduleReconnect\<close>. \<open>connectCalls\<close> counts the calls of
  \<^verbatim>\<open>connect()\<close>. The configuration only decides what is printed and is left out; printing
  (the console, the QR code in the terminal) is taken not to throw.
\<close>

datatype callback = ReconnectAttempt | CallScheduleReconnect | CallConnect

record timer =
  timerId :: nat
  delay :: real
  callback :: callback

record WhatsAppConnection =
  sock :: "nat option"
  isConnected :: bool
  isAuthenticated :: bool
  userInfo :: "(string \<times> string) option"
  reconnectAttempts :: nat
  reconnectTimeout :: "nat option"
  isReconnecting :: bool
  connectionState :: string
  currentQR :: "string option"
  lastQRTime :: "int option"
  timers :: "timer list"
  nextTimerId :: nat
  sockets :: nat
  connectCalls :: nat

definition MAX_RECONNECT_ATTEMPTS :: nat where
  "MAX_RECONNECT_ATTEMPTS = 3"

definition BASE_RECONNECT_DELAY :: real where
  "BASE_RECONNECT_DELAY = 5000"

definition MAX_RECONNECT_DELAY :: real where
  "MAX_RECONNECT_DELAY = 60000"

text \<open>The status codes of the socket library's \<^verbatim>\<open>DisconnectReason\<close> that the handler names.\<close>

definition loggedOut :: nat where
  "loggedOut = 401"

definition restartRequired :: nat where
  "restartRequired = 515"

definition initialConnection :: WhatsAppConnection where
  "initialConnection =
     \<lparr>sock = None, isConnected = False, isAuthenticated = False, userInfo = None,
      reconnectAttempts = 0, reconnectTimeout = None, isReconnecting = False,
      connectionState = ''disconnected'', currentQR = None, lastQRTime = None,
      timers = [], nextTimerId = 0, sockets = 0, connectCalls = 0\<rparr>"

definition setTimeout :: "callback \<Rightarrow> real \<Rightarrow> WhatsAppConnection \<Rightarrow> nat \<times> WhatsAppConnection" where
  "setTimeout cb d s =
     (nextTimerId s,
      s\<lparr>timers := timers s @ [\<lparr>timerId = nextTimerId s, delay = d, callback = cb\<rparr>],
        nextTimerId := Suc (nextTimerId s)\<rparr>)"

definition clearTimeout :: "nat \<Rightarrow> WhatsAppConnection \<Rightarrow> WhatsAppConnection" where
  "clearTimeout h s = s\<lparr>timers := filter (\<lambda>t. timerId t \<noteq> h) (timers s)\<rparr>"

text \<open>\<open>rnd\<close> is the value of \<^verbatim>\<open>Math.random()\<close>, in \<open>[0, 1)\<close>.\<close>

definition calculateReconnectDelay :: "real \<Rightarrow> WhatsAppConnection \<Rightarrow> real" where
  "calculateReconnectDelay rnd s =
     min (BASE_RECONNECT_DELAY * 2 ^ reconnectAttempts s) MAX_RECONNECT_DELAY + rnd * 1000"

definition scheduleReconnect :: "real \<Rightarrow> WhatsAppConnection \<Rightarrow> WhatsAppConnection" where
  "scheduleReconnect rnd s =
     (if reconnectAttempts s \<ge> MAX_RECONNECT_ATTEMPTS then s\<lparr>isReconnecting := False\<rparr>
      else if isReconnecting s then s
      else
        let s1 = s\<lparr>isReconnecting := True\<rparr>;
            d = calculateReconnectDelay rnd s1;
            (h, s2) = setTimeout ReconnectAttempt d s1
        in s2\<lparr>reconnectTimeout := Some h\<rparr>)"

definition resetReconnectState :: "WhatsAppConnection \<Rightarrow> WhatsAppConnection" where
  "resetReconnectState s =
     (let s1 = s\<lparr>reconnectAttempts := 0, isReconnecting := False\<rparr>
      in case reconnectTimeout s1 of
           None \<Rightarrow> s1
         | Some h \<Rightarrow> (clearTimeout h s1)\<lparr>reconnectTimeout := None\<rparr>)"

text \<open>
  \<^verbatim>\<open>connect()\<close>: \<open>ok\<close> says that the authentication state was loaded and the socket made;
  otherwise the \<^verbatim>\<open>catch\<close> runs. Nothing is written before the first \<^verbatim>\<open>await\<close>, so the call
  is one step.
\<close>

definition connect :: "bool \<Rightarrow> real \<Rightarrow> WhatsAppConnection \<Rightarrow> WhatsAppConnection" where
  "connect ok rnd s =
     (let s0 = s\<lparr>connectCalls := Suc (connectCalls s)\<rparr>
      in if ok then s0\<lparr>sock := Some (sockets s0), sockets := Suc (sockets s0)\<rparr>
         else scheduleReconnect rnd (s0\<lparr>isConnected := False, isAuthenticated := False\<rparr>))"

datatype connection = Close | Open | ConnectingNow

text \<open>
  A \<^verbatim>\<open>connection.update\<close> event: \<open>statusCode\<close> is
  \<^verbatim>\<open>lastDisconnect?.error?.output?.statusCode\<close>, \<open>sockUser\<close> the id and the resolved name of
  \<^verbatim>\<open>this.sock.user\<close> when the handler runs. An empty \<^verbatim>\<open>qr\<close> is falsy.
\<close>

record ConnectionUpdate =
  connection :: "connection option"
  statusCode :: "nat option"
  qr :: "string option"
  sockUser :: "(string \<times> string) option"

definition onConnectionUpdate ::
  "ConnectionUpdate \<Rightarrow> int \<Rightarrow> real \<Rightarrow> WhatsAppConnection \<Rightarrow> WhatsAppConnection" where
  "onConnectionUpdate update t rnd s =
     (let s1 =
            (if qr update \<noteq> None \<and> qr update \<noteq> Some [] \<and> connectionState s \<noteq> ''waiting_for_qr''
             then resetReconnectState
                    (s\<lparr>currentQR := qr update, lastQRTime := Some t,
                       connectionState := ''waiting_for_qr'',
                       isAuthenticated := False, isConnected := False\<rparr>)
             else s)
      in case connection update of
           Some Close \<Rightarrow>
             (let shouldReconnect = (statusCode update \<noteq> Some loggedOut);
                  s2 = s1\<lparr>isConnected := False, connectionState := ''disconnected'',
                          isReconnecting := False\<rparr>
              in if statusCode update = Some loggedOut then
                   resetReconnectState
                     (s2\<lparr>isAuthenticated := False, userInfo := None, currentQR := None,
                         lastQRTime := None\<rparr>)
                 else if statusCode update = Some restartRequired then
                   snd (setTimeout CallScheduleReconnect 1000 (s2\<lparr>reconnectAttempts := 0\<rparr>))
                 else if shouldReconnect \<and> \<not> isReconnecting s2 then scheduleReconnect rnd s2
                 else resetReconnectState s2)
         | Some Open \<Rightarrow>
             (let s2 = resetReconnectState
                         (s1\<lparr>isConnected := True, isAuthenticated := True,
                             connectionState := ''connected'', currentQR := None,
                             lastQRTime := None\<rparr>)
              in case sockUser update of
                   None \<Rightarrow> s2
                 | Some u \<Rightarrow> s2\<lparr>userInfo := Some u\<rparr>)
         | Some ConnectingNow \<Rightarrow> s1\<lparr>connectionState := ''connecting'', isConnected := False\<rparr>
         | None \<Rightarrow> s1)"

text \<open>A timer fires: it leaves the runtime's list and its callback runs. The callback of
  \<open>scheduleReconnect\<close> is \<^verbatim>\<open>this.reconnectAttempts++; await this.connect()\<close>.\<close>

definition fireTimer :: "nat \<Rightarrow> bool \<Rightarrow> real \<Rightarrow> WhatsAppConnection \<Rightarrow> WhatsAppConnection" where
  "fireTimer h ok rnd s =
     (case find (\<lambda>t. timerId t = h) (timers s) of
        None \<Rightarrow> s
      | Some t \<Rightarrow>
          (let s1 = clearTimeout h s
           in case callback t of
                ReconnectAttempt \<Rightarrow>
                  connect ok rnd (s1\<lparr>reconnectAttempts := Suc (reconnectAttempts s1)\<rparr>)
              | CallScheduleReconnect \<Rightarrow> scheduleReconnect rnd s1
              | CallConnect \<Rightarrow> connect ok rnd s1))"

definition disconnect :: "WhatsAppConnection \<Rightarrow> WhatsAppConnection" where
  "disconnect s = resetReconnectState (s\<lparr>isConnected := False, isAuthenticated := False\<rparr>)"

definition forceReconnect :: "WhatsAppConnection \<Rightarrow> WhatsAppConnection" where
  "forceReconnect s =
     (let s1 = resetReconnectState
                 (s\<lparr>isConnected := False, isAuthenticated := False, userInfo := None,
                    currentQR := None, lastQRTime := None\<rparr>);
          s2 = disconnect s1
      in snd (setTimeout CallConnect 1000 s2))"

definition resetAuthentication :: "WhatsAppConnection \<Rightarrow> WhatsAppConnection" where
  "resetAuthentication s =
     (let s1 = resetReconnectState
                 (s\<lparr>isConnected := False, isAuthenticated := False, userInfo := None,
                    currentQR := None, lastQRTime := None\<rparr>);
          s2 = disconnect s1
      in snd (setTimeout CallConnect 2000 s2))"

text \<open>
  \<^verbatim>\<open>WhatsAppConnection.sendMessage\<close>. The guard reads \<open>isConnected\<close> and the socket. The number
  is reduced to its digits, which never hold an \<^verbatim>\<open>@\<close>. The \<^verbatim>\<open>key\<close> of the result is left out.
\<close>

definition connSendMessage ::
  "string \<Rightarrow> string \<Rightarrow> WhatsAppConnection \<Rightarrow> world \<Rightarrow> (error + SendMessageResult) \<times> world" where
  "connSendMessage num msg s w =
     (if \<not> isConnected s \<or> sock s = None then (Inl (Error ''WhatsApp not connected''), w)
      else
        let cleanNumber = filter isDigit num;
            formattedNumber = (if CHR ''@'' \<in> set cleanNumber then cleanNumber
                               else cleanNumber @ ''@s.whatsapp.net'');
            w1 = w\<lparr>dispatched := dispatched w @ [(formattedNumber, msg)]\<rparr>
        in case sockOutcome w1 of
             Inl e \<Rightarrow> (Inl e, w1)
           | Inr keyId \<Rightarrow>
               (Inr \<lparr>success = True, resMethod = Direct,
                      messageId = orElse keyId (''direct-'' @ decimal (now w1)),
                      resTimestamp = now w1, resPosition = None, error = None\<rparr>, w1))"

text \<open>
  The states a connection object can be in: it starts as constructed; its methods are
  called, the timers it set fire, and a socket it made raises \<^verbatim>\<open>connection.update\<close>.
\<close>

inductive reachable :: "WhatsAppConnection \<Rightarrow> bool" where
  r_init: "reachable initialConnection"
| r_connect: "reachable s \<Longrightarrow> reachable (connect ok rnd s)"
| r_update: "reachable s \<Longrightarrow> sock s \<noteq> None \<Longrightarrow> reachable (onConnectionUpdate update t rnd s)"
| r_timer: "reachable s \<Longrightarrow> reachable (fireTimer h ok rnd s)"
| r_disconnect: "reachable s \<Longrightarrow> reachable (disconnect s)"
| r_forceReconnect: "reachable s \<Longrightarrow> reachable (forceReconnect s)"
| r_resetAuthentication: "reachable s \<Longrightarrow> reachable (resetAuthentication s)"

section \<open>Whaple\<close>

text \<open>
  A key of the object given to the constructor: not there, there with the value
  \<^verbatim>\<open>undefined\<close> (the optional keys of \<^verbatim>\<open>WhapleConfig\<close> allow it), or there with a value.
\<close>

datatype 'a key = Absent | Undefined | Given 'a

text \<open>
  The value of a key of \<^verbatim>\<open>{k: d, ...config}\<close>: the spread copies every key that
  \<^verbatim>\<open>config\<close> holds over the default \<open>d\<close>, also one whose value is \<^verbatim>\<open>undefined\<close> (\<open>None\<close>).
\<close>

definition spread :: "'a key \<Rightarrow> 'a option \<Rightarrow> 'a option" where
  "spread k d = (case k of Absent \<Rightarrow> d | Undefined \<Rightarrow> None | Given v \<Rightarrow> Some v)"

text \<open>The content of the Firebase service account is not read here: the key says
  whether one was given.\<close>

record WhapleConfig =
  cfgUseDirectWhatsApp :: "bool key"
  cfgWhatsappServerUrl :: "string key"
  cfgApiKey :: "string key"
  cfgFirebaseConfig :: "unit key"
  cfgDebug :: "bool key"
  cfgEnableSmartRouting :: "bool key"
  cfgQueueThreshold :: "int key"

text \<open>
  What the constructor reads besides its argument: the environment variables
  \<^verbatim>\<open>WHATSAPP_SERVER_URL\<close> and \<^verbatim>\<open>WHATSAPP_API_KEY\<close>, whether \<^verbatim>\<open>FIREBASE_SERVICE_ACCOUNT\<close>
  parses to a configuration, and the error of the Firebase initialisation, if it throws.
\<close>

record environment =
  envServerUrl :: "string option"
  envApiKey :: "string option"
  envFirebase :: bool
  firebaseInitError :: "string option"

text \<open>
  The instance. \<open>queueThreshold\<close> is \<^verbatim>\<open>this.config.queueThreshold\<close>, \<open>None\<close> when it is
  \<^verbatim>\<open>undefined\<close>. \<^verbatim>\<open>this.config.enableSmartRouting\<close> and \<^verbatim>\<open>this.config.debug\<close> are only
  read for their truth value, which is what the fields hold.
\<close>

record Whaple =
  useDirectWhatsApp :: bool
  enableSmartRouting :: bool
  queueThreshold :: "int option"
  debug :: bool
  whatsappConnection :: "WhatsAppConnection option"

datatype configError = ConfigurationError string

text \<open>
  The constructor. \<^verbatim>\<open>this.useDirectWhatsApp = config.useDirectWhatsApp || false\<close>; then
  \<^verbatim>\<open>this.config\<close> is the defaults
  \<^verbatim>\<open>whatsappServerUrl: config.whatsappServerUrl || process.env.WHATSAPP_SERVER_URL || ''\<close>,
  \<^verbatim>\<open>queueThreshold: config.queueThreshold || 0\<close>,
  \<^verbatim>\<open>enableSmartRouting: config.enableSmartRouting !== false\<close> and so on, with \<^verbatim>\<open>...config\<close>
  spread over them; a default built from a key that is there is overwritten by that key,
  so only the default for an absent key shows. Then \<^verbatim>\<open>validateConfig\<close> and
  \<^verbatim>\<open>initializeServices\<close>; a connection object is made in direct mode.
\<close>

definition newWhaple :: "environment \<Rightarrow> WhapleConfig \<Rightarrow> configError + Whaple" where
  "newWhaple env config =
     (let direct = (case cfgUseDirectWhatsApp config of Given b \<Rightarrow> b | _ \<Rightarrow> False);
          url = spread (cfgWhatsappServerUrl config) (Some (orElse (envServerUrl env) []));
          apiKey = spread (cfgApiKey config) (Some (orElse (envApiKey env) []));
          firebase = spread (cfgFirebaseConfig config)
                       (if envFirebase env then Some () else None)
      in if \<not> direct \<and> orElse url [] = [] then
           Inl (ConfigurationError
             ''WhatsApp server URL is required when not using direct WhatsApp connection'')
         else if \<not> direct \<and> orElse apiKey [] = [] then
           Inl (ConfigurationError
             ''API key is required when not using direct WhatsApp connection'')
         else if firebase = None then
           Inl (ConfigurationError ''Firebase configuration is required'')
         else
           (case firebaseInitError env of
              Some m \<Rightarrow> Inl (ConfigurationError (''Firebase initialization failed: '' @ m))
            | None \<Rightarrow>
                Inr \<lparr>useDirectWhatsApp = direct,
                      enableSmartRouting =
                        (case spread (cfgEnableSmartRouting config) (Some True) of
                           None \<Rightarrow> False | Some b \<Rightarrow> b),
                      queueThreshold = spread (cfgQueueThreshold config) (Some 0),
                      debug =
                        (case spread (cfgDebug config) (Some False) of
                           None \<Rightarrow> False | Some b \<Rightarrow> b),
                      whatsappConnection = (if direct then Some initialConnection else None)\<rparr>))"

text \<open>The object \<^verbatim>\<open>messageData\<close> that \<open>sendMessage\<close> and \<open>queueMessage\<close> build.\<close>

definition buildMessageData :: "string \<Rightarrow> string \<Rightarrow> SendMessageOptions \<Rightarrow> world \<Rightarrow> MessageData" where
  "buildMessageData normalized msg opts w =
     \<lparr>number = normalized, message = msg, options = opts, source = ''sdk'',
      version = ''1.0.0'', timestamp = now w,
      priority = (case optPriority opts of None \<Rightarrow> Medium | Some p \<Rightarrow> p)\<rparr>"

definition sendDirectWithFallback :: "MessageData \<Rightarrow> world \<Rightarrow> (error + SendMessageResult) \<times> world" where
  "sendDirectWithFallback messageData w =
     (case apiSendMessage (number messageData) (message messageData) (options messageData) w of
        (Inr result, w1) \<Rightarrow>
          (Inr \<lparr>success = True, resMethod = Direct,
                 messageId = orElse (Some (asMessageId result)) (''direct-'' @ decimal (now w1)),
                 resTimestamp = now w1, resPosition = None, error = None\<rparr>, w1)
      | (Inl e, w1) \<Rightarrow>
          (case addMessage messageData w1 of
             (Inl e', w2) \<Rightarrow> (Inl e', w2)
           | (Inr queueResult, w2) \<Rightarrow>
               (Inr \<lparr>success = success queueResult, resMethod = resMethod queueResult,
                      messageId = messageId queueResult,
                      resTimestamp = resTimestamp queueResult,
                      resPosition = resPosition queueResult,
                      error = Some (''Fallback: '' @ errorMessage e)\<rparr>, w2)))"

text \<open>The routing test of \<open>smartRoutingDecision\<close>. A number compared with \<^verbatim>\<open>undefined\<close>
  is never greater.\<close>

definition shouldUseQueue :: "Whaple \<Rightarrow> bool \<Rightarrow> QueueStatus \<Rightarrow> bool" where
  "shouldUseQueue wh isHealthy queueStatus =
     (\<not> isHealthy
      \<or> (case queueThreshold wh of
            None \<Rightarrow> False
          | Some threshold \<Rightarrow> int (pendingMessages queueStatus) > threshold)
      \<or> processingMessages queueStatus > 0)"

text \<open>Whatever the \<^verbatim>\<open>try\<close> block throws, the \<^verbatim>\<open>catch\<close> enqueues.\<close>

definition smartRoutingDecision ::
  "Whaple \<Rightarrow> MessageData \<Rightarrow> world \<Rightarrow> (error + SendMessageResult) \<times> world" where
  "smartRoutingDecision wh messageData w =
     (let (isHealthy, w1) = isServerHealthy w;
          (queueStatus, w2) = getQueueStatus w1
      in case (if shouldUseQueue wh isHealthy queueStatus then addMessage messageData w2
               else sendDirectWithFallback messageData w2) of
           (Inr r, w3) \<Rightarrow> (Inr r, w3)
         | (Inl e, w3) \<Rightarrow> addMessage messageData w3)"

definition queueMessage ::
  "string \<Rightarrow> string \<Rightarrow> SendMessageOptions \<Rightarrow> world \<Rightarrow> (error + SendMessageResult) \<times> world" where
  "queueMessage num msg opts w =
     (case normalizePhoneNumber num of
        Inl e \<Rightarrow> (Inl e, w)
      | Inr normalized \<Rightarrow> addMessage (buildMessageData normalized msg opts w) w)"

definition sendDirect ::
  "string \<Rightarrow> string \<Rightarrow> SendMessageOptions \<Rightarrow> world \<Rightarrow> (error + ApiSendResult) \<times> world" where
  "sendDirect num msg opts w =
     (case normalizePhoneNumber num of
        Inl e \<Rightarrow> (Inl e, w)
      | Inr normalized \<Rightarrow> apiSendMessage normalized msg opts w)"

text \<open>\<^verbatim>\<open>catch (error) { throw new Error(prefix + error.message) }\<close>.\<close>

definition rethrow :: "string \<Rightarrow> (error + 'a) \<times> world \<Rightarrow> (error + 'a) \<times> world" where
  "rethrow prefix x =
     (case x of
        (Inr r, w') \<Rightarrow> (Inr r, w')
      | (Inl e, w') \<Rightarrow> (Inl (Error (prefix @ errorMessage e)), w'))"

text \<open>
  \<open>sendMessage\<close>. The number is normalised before the \<^verbatim>\<open>try\<close>, so a \<open>ValidationError\<close>
  leaves as it is; every other error is wrapped.
\<close>

definition sendMessage ::
  "Whaple \<Rightarrow> string \<Rightarrow> string \<Rightarrow> SendMessageOptions \<Rightarrow> world \<Rightarrow> (error + SendMessageResult) \<times> world" where
  "sendMessage wh num msg opts w =
     (case normalizePhoneNumber num of
        Inl e \<Rightarrow> (Inl e, w)
      | Inr normalized \<Rightarrow>
          (let messageData = buildMessageData normalized msg opts w
           in rethrow ''Failed to send message: ''
                (case (if useDirectWhatsApp wh then whatsappConnection wh else None) of
                   Some conn \<Rightarrow>
                     if isConnected conn \<and> isAuthenticated conn then
                       (case connSendMessage (number messageData) (message messageData) conn w of
                          (Inr r, w1) \<Rightarrow> (Inr r, w1)
                        | (Inl e, w1) \<Rightarrow> addMessage messageData w1)
                     else addMessage messageData w
                 | None \<Rightarrow>
                     if enableSmartRouting wh then smartRoutingDecision wh messageData w
                     else queueMessage (number messageData) (message messageData) opts w)))"

text \<open>
  What the routing test of one call sees: the health boolean, the queue status, and the
  world once both are read.
\<close>

definition healthSeen :: "world \<Rightarrow> bool" where
  "healthSeen w = fst (isServerHealthy w)"

definition statusSeen :: "world \<Rightarrow> QueueStatus" where
  "statusSeen w = fst (getQueueStatus (snd (isServerHealthy w)))"

definition decided :: "world \<Rightarrow> world" where
  "decided w = snd (getQueueStatus (snd (isServerHealthy w)))"

section \<open>Example values\<close>

definition noOptions :: SendMessageOptions where
  "noOptions = \<lparr>optSource = None, optTimestamp = None, optPriority = None,
                 optRetryCount = None, optOther = []\<rparr>"

definition exampleData :: MessageData where
  "exampleData =
     \<lparr>number = ''+15555550123'', message = ''hi'', options = noOptions, source = ''sdk'',
      version = ''1.0.0'', timestamp = 2000, priority = Medium\<rparr>"

text \<open>A pending record with the given id and \<open>queuedAt\<close>.\<close>

definition storedAt :: "string \<Rightarrow> int \<Rightarrow> string \<times> StoredMessage" where
  "storedAt k q = (k, pendingRecord (queueData exampleData k q (- 1)) q)"

text \<open>
  A world at time 2000 with the given pending partition: nothing in processing, a worker
  whose heartbeat is 10 ms old, a store that answers every operation, an empty health
  cache, a backend that answers the health request with 200 and accepts a send.
\<close>

definition exampleWorld :: "(string \<times> StoredMessage) list \<Rightarrow> world" where
  "exampleWorld p =
     \<lparr>now = 2000, pending = p, processing = [],
      heartbeatNode = Some \<lparr>hbAlive = True, hbLastSeen = Some 1990, hbLastProcessed = None,
                             hbNextProcessingTime = None\<rparr>,
      dbFault = (\<lambda>n. None), dbOps = 0,
      uuids = (\<lambda>n. ''uuid-'' @ decimalNat n), uuidCount = 0,
      lastCheck = None, lastResult = None, cacheTimeMs = 5000,
      healthProbe = Response 200, probes = 0,
      apiOutcome = Inr \<lparr>apiSuccess = True, apiError = None, apiMessageId = Some ''wamid-1'',
                           apiKeyId = None, apiMessageTimestamp = None\<rparr>,
      apiSent = [], sockOutcome = Inr (Some ''key-1''), dispatched = []\<rparr>"

text \<open>An environment with no variable set, in which Firebase initialises; a caller's
  configuration with the server URL, the API key and a Firebase account and nothing else;
  and the instance the constructor builds from them: smart routing, threshold 0.\<close>

definition exampleEnv :: environment where
  "exampleEnv =
     \<lparr>envServerUrl = None, envApiKey = None, envFirebase = False, firebaseInitError = None\<rparr>"

definition exampleConfig :: WhapleConfig where
  "exampleConfig =
     \<lparr>cfgUseDirectWhatsApp = Absent, cfgWhatsappServerUrl = Given ''https://wa.example'',
      cfgApiKey = Given ''secret'', cfgFirebaseConfig = Given (), cfgDebug = Absent,
      cfgEnableSmartRouting = Absent, cfgQueueThreshold = Absent\<rparr>"

definition exampleWhaple :: Whaple where
  "exampleWhaple =
     \<lparr>useDirectWhatsApp = False, enableSmartRouting = True, queueThreshold = Some 0,
      debug = False, whatsappConnection = None\<rparr>"

text \<open>The example world with nothing pending and a send endpoint that cannot be reached.\<close>

definition apiDownWorld :: world where
  "apiDownWorld = (exampleWorld [])\<lparr>apiOutcome := Inl (Error ''Network error: ECONNRESET'')\<rparr>"

text \<open>The example world with nothing pending and a backend whose health request times
  out.\<close>

definition probeDownWorld :: world where
  "probeDownWorld = (exampleWorld [])\<lparr>healthProbe := Timeout\<rparr>"

text \<open>Events of a socket, and connection objects reached through them.\<close>

definition openUpdate :: ConnectionUpdate where
  "openUpdate =
     \<lparr>connection = Some Open, statusCode = None, qr = None,
      sockUser = Some (''15550001111:1@s.whatsapp.net'', ''Whaple'')\<rparr>"

definition closeUpdate :: "nat \<Rightarrow> ConnectionUpdate" where
  "closeUpdate code =
     \<lparr>connection = Some Close, statusCode = Some code, qr = None, sockUser = None\<rparr>"

text \<open>\<open>connect()\<close> made a socket and the socket opened.\<close>

definition exampleConnected :: WhatsAppConnection where
  "exampleConnected = onConnectionUpdate openUpdate 1000 0 (connect True 0 initialConnection)"

text \<open>The socket then closed with status 428 (connection closed), the reconnect timer
  fired and \<open>connect()\<close> made a second socket: one reconnect attempt is counted.\<close>

definition exampleRetried :: WhatsAppConnection where
  "exampleRetried =
     fireTimer 0 True 0 (onConnectionUpdate (closeUpdate 428) 1500 0 exampleConnected)"

section \<open>Properties of normalizePhoneNumber\<close>

lemma isDigit_not_plus: "isDigit c \<Longrightarrow> c \<noteq> CHR ''+''"
  by (auto simp: isDigit_def)

lemma keptChar_plus: "keptChar CHR ''+''"
  by (simp add: keptChar_def)

lemma normalize_shape:
  assumes "d \<noteq> []"
  shows "normalizePhoneNumber d =
           Inr (if startsWith (filter keptChar d) ''+'' then filter keptChar d
                else CHR ''+'' # filter keptChar d)"
  using assms by (simp add: normalizePhoneNumber_def Let_def)

lemma startsWith_plus_iff: "startsWith s ''+'' \<longleftrightarrow> (\<exists>cs. s = CHR ''+'' # cs)"
  by (cases s) (auto simp: startsWith_def)

text \<open>
  Claim C4, as amended. For every non-empty destination \<open>d\<close>, normalisation succeeds with
  a string \<open>n\<close> that begins with \<^verbatim>\<open>+\<close> and holds only digits and \<^verbatim>\<open>+\<close> characters; what
  follows the leading \<^verbatim>\<open>+\<close> is digits only exactly when the input has no \<^verbatim>\<open>+\<close> after
  its first kept character; and normalising \<open>n\<close> again gives \<open>n\<close>.
\<close>

theorem normalize_plus_digits_idempotent:
  assumes "d \<noteq> []"
  shows "\<exists>n. normalizePhoneNumber d = Inr n
             \<and> startsWith n ''+''
             \<and> list_all keptChar n
             \<and> (canonical n \<longleftrightarrow> plusOnlyLeading d)
             \<and> normalizePhoneNumber n = Inr n"
proof (cases "startsWith (filter keptChar d) ''+''")
  case True
  then obtain cs where cs: "filter keptChar d = CHR ''+'' # cs"
    by (auto simp: startsWith_plus_iff)
  have kept: "list_all keptChar cs"
  proof -
    have "list_all keptChar (filter keptChar d)"
      by (simp add: list_all_iff)
    then show ?thesis
      by (simp add: cs)
  qed
  have "canonical (CHR ''+'' # cs) \<longleftrightarrow> CHR ''+'' \<notin> set cs"
    using kept by (auto simp: canonical_def list_all_iff keptChar_def dest: isDigit_not_plus)
  moreover have "filter keptChar (CHR ''+'' # cs) = CHR ''+'' # cs"
    using kept by (simp add: keptChar_plus list_all_iff)
  ultimately show ?thesis
    using assms True cs kept
    by (simp add: normalize_shape plusOnlyLeading_def startsWith_def keptChar_plus)
next
  case False
  let ?f = "filter keptChar d"
  have kept: "list_all keptChar ?f"
    by (simp add: list_all_iff)
  have nohd: "?f = [] \<or> hd ?f \<noteq> CHR ''+''"
    using False by (cases ?f) (auto simp: startsWith_def)
  have "canonical (CHR ''+'' # ?f) \<longleftrightarrow> CHR ''+'' \<notin> set ?f"
    using kept by (auto simp: canonical_def list_all_iff keptChar_def dest: isDigit_not_plus)
  moreover have "CHR ''+'' \<notin> set ?f \<longleftrightarrow> CHR ''+'' \<notin> set (tl ?f)"
    using nohd by (cases ?f) auto
  moreover have "filter keptChar (CHR ''+'' # ?f) = CHR ''+'' # ?f"
    by (simp add: keptChar_plus)
  ultimately show ?thesis
    using assms False kept
    by (simp add: normalize_shape plusOnlyLeading_def startsWith_def keptChar_plus)
qed

theorem normalize_plus_digits_idempotent_witness:
  "''(123) 456-7890'' \<noteq> []
   \<and> normalizePhoneNumber ''(123) 456-7890'' = Inr ''+1234567890''
   \<and> canonical ''+1234567890''
   \<and> normalizePhoneNumber ''+1234567890'' = Inr ''+1234567890''"
  using normalize_plus_digits_idempotent [of "''(123) 456-7890''"]
  by (simp add: normalizePhoneNumber_def keptChar_def isDigit_def startsWith_def
      canonical_def)

theorem normalize_not_canonical_counterexample:
  "\<not> (case normalizePhoneNumber ''1+2'' of Inl e \<Rightarrow> False | Inr n \<Rightarrow> canonical n)"
  by (simp add: normalizePhoneNumber_def keptChar_def isDigit_def startsWith_def
      canonical_def)

section \<open>Rank in a stably sorted list\<close>

lemma indexOf_notin: "x \<notin> set xs \<Longrightarrow> indexOf xs x = - 1"
  by (induction xs) (auto simp: Let_def)

lemma indexOf_nonneg: "x \<in> set xs \<Longrightarrow> 0 \<le> indexOf xs x"
  by (induction xs) (auto simp: Let_def)

lemma indexOf_append_Cons: "x \<notin> set us \<Longrightarrow> indexOf (us @ x # vs) x = int (length us)"
  by (induction us) (auto simp: Let_def)

lemma indexOf_less_length: "x \<in> set xs \<Longrightarrow> indexOf xs x < int (length xs)"
  by (induction xs) (auto simp: Let_def)

lemma length_split_le:
  fixes f :: "'a \<Rightarrow> 'b::linorder"
  assumes "\<forall>u\<in>set us. f u \<le> k"
  shows "length us = length (filter (\<lambda>y. f y < k) us) + length (filter (\<lambda>y. f y = k) us)"
  using assms by (induction us) auto

lemma takeWhile_split:
  assumes "x \<in> set xs"
  shows "xs = takeWhile (\<lambda>y. y \<noteq> x) xs @ x # tl (dropWhile (\<lambda>y. y \<noteq> x) xs)"
  using assms by (induction xs) auto

lemma prefix_before_first:
  assumes "x \<notin> set ps" and "x \<notin> set qs" and "ps @ x # bs = qs @ x # ds"
  shows "ps = qs"
  using assms
proof (induction ps arbitrary: qs)
  case Nil
  then show ?case by (cases qs) auto
next
  case (Cons p ps)
  then show ?case by (cases qs) auto
qed

lemma indexOf_sort_key:
  fixes f :: "'a \<Rightarrow> 'b::linorder"
  assumes dist: "distinct xs" and mem: "x \<in> set xs"
  shows "indexOf (sort_key f xs) x =
           int (length (filter (\<lambda>y. f y < f x) xs)
                + length (filter (\<lambda>y. f y = f x) (takeWhile (\<lambda>y. y \<noteq> x) xs)))"
proof -
  let ?ys = "sort_key f xs"
  have "x \<in> set ?ys" using mem by simp
  then have "\<exists>us vs. ?ys = us @ x # vs \<and> x \<notin> set us"
    by (rule split_list_first)
  then obtain us vs where ys: "?ys = us @ x # vs" and xus: "x \<notin> set us"
    by blast
  have "sorted (map f ?ys)" by simp
  then have srt: "sorted (map f us @ f x # map f vs)" by (simp add: ys)
  have le_us: "\<forall>u\<in>set us. f u \<le> f x"
    using srt by (auto simp: sorted_append)
  have ge_vs: "\<forall>v\<in>set vs. f x \<le> f v"
    using srt by (auto simp: sorted_append)
  have idx: "indexOf ?ys x = int (length us)"
    by (simp add: ys indexOf_append_Cons xus)
  have "filter (\<lambda>y. f y < f x) ?ys = filter (\<lambda>y. f y < f x) us"
    using ge_vs by (auto simp: ys filter_empty_conv)
  moreover have "length (filter (\<lambda>y. f y < f x) ?ys) = length (filter (\<lambda>y. f y < f x) xs)"
  proof -
    have "mset (filter (\<lambda>y. f y < f x) ?ys) = mset (filter (\<lambda>y. f y < f x) xs)"
      by simp
    then show ?thesis by (rule mset_eq_length)
  qed
  ultimately have less: "length (filter (\<lambda>y. f y < f x) us) = length (filter (\<lambda>y. f y < f x) xs)"
    by simp
  have stable: "filter (\<lambda>y. f y = f x) ?ys = filter (\<lambda>y. f y = f x) xs"
    by (rule sort_key_stable)
  let ?p = "takeWhile (\<lambda>y. y \<noteq> x) xs" and ?s = "tl (dropWhile (\<lambda>y. y \<noteq> x) xs)"
  have xs: "xs = ?p @ x # ?s" using mem by (rule takeWhile_split)
  have "filter (\<lambda>y. f y = f x) ?ys = filter (\<lambda>y. f y = f x) us @ x # filter (\<lambda>y. f y = f x) vs"
    by (simp add: ys)
  moreover have "filter (\<lambda>y. f y = f x) xs = filter (\<lambda>y. f y = f x) ?p @ x # filter (\<lambda>y. f y = f x) ?s"
    by (subst xs) simp
  ultimately have eq: "filter (\<lambda>y. f y = f x) us @ x # filter (\<lambda>y. f y = f x) vs
      = filter (\<lambda>y. f y = f x) ?p @ x # filter (\<lambda>y. f y = f x) ?s"
    using stable by simp
  have n1: "x \<notin> set (filter (\<lambda>y. f y = f x) us)" using xus by simp
  have n2: "x \<notin> set (filter (\<lambda>y. f y = f x) ?p)"
    by (auto dest: set_takeWhileD)
  have "filter (\<lambda>y. f y = f x) us = filter (\<lambda>y. f y = f x) ?p"
    by (rule prefix_before_first [OF n1 n2 eq])
  then have "length us = length (filter (\<lambda>y. f y < f x) xs) + length (filter (\<lambda>y. f y = f x) ?p)"
    using length_split_le [OF le_us] less by simp
  then show ?thesis using idx by simp
qed

text \<open>On keys already in ascending order, sorting by \<open>f\<close> alone and sorting by \<open>f\<close> and
  then by key give the same list: a stable sort keeps equal elements in their order.\<close>

lemma insort_key_with_key:
  fixes f :: "'a::linorder \<Rightarrow> 'b::linorder"
  assumes "\<forall>y\<in>set ys. x \<le> y"
  shows "insort_key f x ys = insort_key (\<lambda>a. (f a, a)) x ys"
  using assms
proof (induction ys)
  case Nil
  show ?case by simp
next
  case (Cons y ys)
  then have "x \<le> y" by simp
  then have "(f x, x) \<le> (f y, y) \<longleftrightarrow> f x \<le> f y"
    by (auto simp: less_eq_prod_def)
  then show ?case using Cons by simp
qed

lemma sort_key_with_key:
  fixes f :: "'a::linorder \<Rightarrow> 'b::linorder"
  assumes "sorted xs"
  shows "sort_key f xs = sort_key (\<lambda>a. (f a, a)) xs"
  using assms
proof (induction xs)
  case Nil
  show ?case by simp
next
  case (Cons x xs)
  then have ih: "sort_key f xs = sort_key (\<lambda>a. (f a, a)) xs" by simp
  have "\<forall>y\<in>set (sort_key (\<lambda>a. (f a, a)) xs). x \<le> y" using Cons.prems by simp
  then have "insort_key f x (sort_key (\<lambda>a. (f a, a)) xs)
      = insort_key (\<lambda>a. (f a, a)) x (sort_key (\<lambda>a. (f a, a)) xs)"
    by (rule insort_key_with_key)
  moreover have "sort_key f (x # xs) = insort_key f x (sort_key f xs)"
    by (simp add: sort_key_simps)
  moreover have "sort_key (\<lambda>a. (f a, a)) (x # xs)
      = insort_key (\<lambda>a. (f a, a)) x (sort_key (\<lambda>a. (f a, a)) xs)"
    by (simp add: sort_key_simps)
  ultimately show ?case
    using ih by metis
qed

section \<open>QueueManager.getQueuePosition\<close>

text \<open>
  Claim C5, as amended. When the read of the pending partition succeeds, the position of
  an id that is not pending is \<open>-1\<close>, and the position of a pending id is the number of
  pending ids with a smaller \<open>queuedAt\<close> plus the number of ids with the same \<open>queuedAt\<close>
  that the snapshot enumerates before it: ties keep the snapshot's order of keys. So
  when the snapshot enumerates the ids in ascending lexical order, the position is the
  rank of the specification, with ties in the lexical order of the ids.
\<close>

theorem getQueuePosition_rank:
  assumes "dbFault w (dbOps w) = None" and "distinct (map fst (pending w))"
  shows "fst (getQueuePosition msgId w) =
           (if msgId \<in> set (map fst (pending w)) then
              int (length (filter (\<lambda>a. queuedAtOf (pending w) a < queuedAtOf (pending w) msgId)
                             (map fst (pending w)))
                   + length (filter (\<lambda>a. queuedAtOf (pending w) a = queuedAtOf (pending w) msgId)
                               (takeWhile (\<lambda>a. a \<noteq> msgId) (map fst (pending w)))))
            else - 1)
         \<and> (sorted (map fst (pending w))
              \<longrightarrow> fst (getQueuePosition msgId w) = specPosition (pending w) msgId)"
proof -
  let ?keys = "map fst (pending w)"
  let ?q = "queuedAtOf (pending w)"
  have pos: "fst (getQueuePosition msgId w) = indexOf (sort_key ?q ?keys) msgId"
    using assms(1) by (cases "pending w") (simp_all add: getQueuePosition_def oncePending_def)
  have rank: "indexOf (sort_key ?q ?keys) msgId =
      (if msgId \<in> set ?keys then
         int (length (filter (\<lambda>a. ?q a < ?q msgId) ?keys)
              + length (filter (\<lambda>a. ?q a = ?q msgId) (takeWhile (\<lambda>a. a \<noteq> msgId) ?keys)))
       else - 1)"
  proof (cases "msgId \<in> set ?keys")
    case True
    then show ?thesis using indexOf_sort_key [OF assms(2) True, of ?q] by simp
  next
    case False
    then have "indexOf (sort_key ?q ?keys) msgId = - 1"
      by (intro indexOf_notin) simp
    then show ?thesis using False by simp
  qed
  have lexical: "fst (getQueuePosition msgId w) = specPosition (pending w) msgId"
    if "sorted ?keys"
  proof -
    have "sort_key ?q ?keys = sort_key (\<lambda>a. (?q a, a)) ?keys"
      using that by (rule sort_key_with_key)
    then show ?thesis unfolding pos specPosition_def by (rule arg_cong)
  qed
  show ?thesis using pos rank lexical by simp
qed

theorem getQueuePosition_rank_witness:
  "dbFault (exampleWorld [storedAt ''b'' 5, storedAt ''a'' 5, storedAt ''c'' 1])
      (dbOps (exampleWorld [storedAt ''b'' 5, storedAt ''a'' 5, storedAt ''c'' 1])) = None
   \<and> distinct (map fst (pending (exampleWorld [storedAt ''b'' 5, storedAt ''a'' 5, storedAt ''c'' 1])))
   \<and> fst (getQueuePosition ''a'' (exampleWorld [storedAt ''b'' 5, storedAt ''a'' 5, storedAt ''c'' 1])) = 2
   \<and> fst (getQueuePosition ''zz'' (exampleWorld [storedAt ''b'' 5, storedAt ''a'' 5, storedAt ''c'' 1])) = - 1
   \<and> dbFault (exampleWorld [storedAt ''a'' 5, storedAt ''b'' 5, storedAt ''c'' 1])
        (dbOps (exampleWorld [storedAt ''a'' 5, storedAt ''b'' 5, storedAt ''c'' 1])) = None
   \<and> distinct (map fst (pending (exampleWorld [storedAt ''a'' 5, storedAt ''b'' 5, storedAt ''c'' 1])))
   \<and> sorted (map fst (pending (exampleWorld [storedAt ''a'' 5, storedAt ''b'' 5, storedAt ''c'' 1])))
   \<and> fst (getQueuePosition ''b'' (exampleWorld [storedAt ''a'' 5, storedAt ''b'' 5, storedAt ''c'' 1])) = 2
   \<and> specPosition (pending (exampleWorld [storedAt ''a'' 5, storedAt ''b'' 5, storedAt ''c'' 1])) ''b'' = 2"
  using getQueuePosition_rank [of "exampleWorld [storedAt ''b'' 5, storedAt ''a'' 5, storedAt ''c'' 1]" "''a''"]
    getQueuePosition_rank [of "exampleWorld [storedAt ''b'' 5, storedAt ''a'' 5, storedAt ''c'' 1]" "''zz''"]
    getQueuePosition_rank [of "exampleWorld [storedAt ''a'' 5, storedAt ''b'' 5, storedAt ''c'' 1]" "''b''"]
  by (simp add: exampleWorld_def storedAt_def queuedAtOf_def pendingRecord_def queueData_def
      QueueMessage.extend_def StoredMessage.fields_def)

theorem getQueuePosition_ties_counterexample:
  "fst (getQueuePosition ''10'' (exampleWorld [storedAt ''9'' 5, storedAt ''10'' 5]))
     \<noteq> specPosition [storedAt ''9'' 5, storedAt ''10'' 5] ''10''"
  by (simp add: exampleWorld_def storedAt_def queuedAtOf_def pendingRecord_def queueData_def
      QueueMessage.extend_def StoredMessage.fields_def getQueuePosition_def oncePending_def
      specPosition_def Let_def)

section \<open>QueueManager.addMessage\<close>

lemma getQueuePosition_world: "snd (getQueuePosition k w) = w\<lparr>dbOps := Suc (dbOps w)\<rparr>"
  by (simp add: getQueuePosition_def oncePending_def Let_def split: option.splits)

lemma getQueuePosition_absent:
  assumes "k \<notin> set (map fst (pending w))"
  shows "fst (getQueuePosition k w) = - 1"
proof -
  have "indexOf (sort_key (queuedAtOf (pending w)) (map fst (pending w))) k = - 1"
    using assms by (intro indexOf_notin) simp
  then show ?thesis
    by (simp add: getQueuePosition_def oncePending_def Let_def split: option.splits)
qed

lemma getQueuePosition_present:
  assumes "k \<in> set (map fst (pending w))" and "dbFault w (dbOps w) = None"
  shows "0 \<le> fst (getQueuePosition k w)"
    and "fst (getQueuePosition k w) < int (length (pending w))"
proof -
  have ne: "pending w \<noteq> []" using assms(1) by auto
  have mem: "k \<in> set (sort_key (queuedAtOf (pending w)) (map fst (pending w)))"
    using assms(1) by simp
  have eq: "fst (getQueuePosition k w)
      = indexOf (sort_key (queuedAtOf (pending w)) (map fst (pending w))) k"
    using ne assms(2) by (simp add: getQueuePosition_def oncePending_def Let_def)
  show "0 \<le> fst (getQueuePosition k w)"
    using indexOf_nonneg [OF mem] eq by simp
  show "fst (getQueuePosition k w) < int (length (pending w))"
    using indexOf_less_length [OF mem] eq by simp
qed

lemma getQueuePosition_faulty:
  assumes "dbFault w (dbOps w) = Some m"
  shows "fst (getQueuePosition k w) = - 1"
  using assms by (simp add: getQueuePosition_def oncePending_def)

lemma map_of_putChild: "map_of (putChild k v kvs) k = Some v"
  by (induction kvs) auto

lemma map_fst_putChild:
  "map fst (putChild k v kvs) = (if k \<in> set (map fst kvs) then map fst kvs else map fst kvs @ [k])"
proof (induction kvs)
  case Nil
  show ?case by simp
next
  case (Cons a kvs)
  obtain k' v' where a: "a = (k', v')" by (cases a)
  show ?case
  proof (cases "k' = k")
    case True
    then show ?thesis by (simp add: a)
  next
    case False
    then show ?thesis using Cons by (simp add: a)
  qed
qed

lemma keys_putChild: "set (map fst (putChild k v kvs)) = insert k (set (map fst kvs))"
  unfolding map_fst_putChild by auto

lemma distinct_putChild: "distinct (map fst kvs) \<Longrightarrow> distinct (map fst (putChild k v kvs))"
  unfolding map_fst_putChild by auto

lemma getQueuePosition_uuidCount:
  "fst (getQueuePosition k (w\<lparr>uuidCount := n\<rparr>)) = fst (getQueuePosition k w)"
  by (simp add: getQueuePosition_def oncePending_def Let_def split: option.splits)

lemma addMessage_written:
  assumes "dbFault w (Suc (dbOps w)) = None"
  shows "addMessage md w =
           (Inr \<lparr>success = True, resMethod = Queued, messageId = uuids w (uuidCount w),
                  resTimestamp = now w,
                  resPosition = Some (fst (getQueuePosition (uuids w (uuidCount w)) (afterWrite md w))),
                  error = None\<rparr>,
            (afterWrite md w)\<lparr>dbOps := Suc (Suc (Suc (dbOps w)))\<rparr>)"
proof -
  let ?k = "uuids w (uuidCount w)"
  let ?w1 = "w\<lparr>uuidCount := Suc (uuidCount w)\<rparr>"
  obtain pos w2 where g1: "getQueuePosition ?k ?w1 = (pos, w2)"
    by (cases "getQueuePosition ?k ?w1")
  have w2: "w2 = ?w1\<lparr>dbOps := Suc (dbOps w)\<rparr>"
    using getQueuePosition_world [of ?k ?w1] g1 by simp
  have pos: "pos = fst (getQueuePosition ?k w)"
    using getQueuePosition_uuidCount [where k = ?k and w = w and n = "Suc (uuidCount w)"] g1
    by simp
  have wr: "setPending ?k (pendingRecord (queueData md ?k (now w2) pos) (now w2)) w2
      = (Inr (), afterWrite md w)"
    using assms by (simp add: setPending_def w2 pos afterWrite_def)
  obtain pos' w4 where g2: "getQueuePosition ?k (afterWrite md w) = (pos', w4)"
    by (cases "getQueuePosition ?k (afterWrite md w)")
  have w4: "w4 = (afterWrite md w)\<lparr>dbOps := Suc (Suc (Suc (dbOps w)))\<rparr>"
    using getQueuePosition_world [of ?k "afterWrite md w"] g2 by (simp add: afterWrite_def)
  have "timestamp (queueData md ?k (now w2) pos) = now w"
    by (simp add: queueData_def w2)
  then show ?thesis
    using g1 wr g2 w4 by (simp add: addMessage_def generateMessageId_def)
qed

lemma addMessage_rejected:
  assumes "dbFault w (Suc (dbOps w)) = Some m"
  shows "addMessage md w =
           (Inl (Error (''Failed to queue message: '' @ m)),
            w\<lparr>uuidCount := Suc (uuidCount w), dbOps := Suc (Suc (dbOps w))\<rparr>)"
proof -
  let ?k = "uuids w (uuidCount w)"
  let ?w1 = "w\<lparr>uuidCount := Suc (uuidCount w)\<rparr>"
  obtain pos w2 where g1: "getQueuePosition ?k ?w1 = (pos, w2)"
    by (cases "getQueuePosition ?k ?w1")
  have w2: "w2 = ?w1\<lparr>dbOps := Suc (dbOps w)\<rparr>"
    using getQueuePosition_world [of ?k ?w1] g1 by simp
  have "setPending ?k (pendingRecord (queueData md ?k (now w2) pos) (now w2)) w2
      = (Inl (Error m), w\<lparr>uuidCount := Suc (uuidCount w), dbOps := Suc (Suc (dbOps w))\<rparr>)"
    using assms by (simp add: setPending_def w2)
  then show ?thesis
    using g1 by (simp add: addMessage_def generateMessageId_def)
qed

text \<open>The record that a successful enqueue leaves under the new id.\<close>

lemma addMessage_stores:
  assumes "addMessage md w = (Inr r, w')"
  shows "\<exists>m. map_of (pending w') (messageId r) = Some m
             \<and> number m = number md \<and> message m = message md \<and> options m = options md
             \<and> source m = source md \<and> version m = version md \<and> priority m = priority md
             \<and> timestamp m = now w \<and> id' m = messageId r \<and> status m = Pending
             \<and> retryCount m = 0 \<and> queuedAt m = now w \<and> attempts m = 0"
proof (cases "dbFault w (Suc (dbOps w))")
  case (Some e)
  then show ?thesis using assms by (simp add: addMessage_rejected)
next
  case None
  let ?k = "uuids w (uuidCount w)"
  let ?m = "pendingRecord (queueData md ?k (now w) (fst (getQueuePosition ?k w))) (now w)"
  have r: "messageId r = ?k"
    and w': "w' = (afterWrite md w)\<lparr>dbOps := Suc (Suc (Suc (dbOps w)))\<rparr>"
    using assms addMessage_written [OF None, of md] by auto
  have "map_of (pending w') (messageId r) = Some ?m"
    by (simp add: r w' afterWrite_def map_of_putChild)
  moreover have "number ?m = number md \<and> message ?m = message md \<and> options ?m = options md
      \<and> source ?m = source md \<and> version ?m = version md \<and> priority ?m = priority md
      \<and> timestamp ?m = now w \<and> id' ?m = ?k \<and> status ?m = Pending
      \<and> retryCount ?m = 0 \<and> queuedAt ?m = now w \<and> attempts ?m = 0"
    by (simp add: pendingRecord_def queueData_def QueueMessage.extend_def
        StoredMessage.fields_def)
  ultimately show ?thesis using r by simp
qed

text \<open>
  Claim C10. Whenever an enqueue succeeds with an id that was not yet pending, the record
  written under that id holds \<open>position = -1\<close>, whatever the queue holds: the stored value
  is the rank looked up before the write. The position returned to the caller is the rank
  looked up after the write: it is the record's rank (at least 0, below the number of
  pending records) when that read succeeds, and \<open>-1\<close> when it is rejected.
\<close>

theorem addMessage_stored_position:
  assumes "uuids w (uuidCount w) \<notin> set (map fst (pending w))"
    and "addMessage md w = (Inr r, w')"
  shows "\<exists>m p. map_of (pending w') (messageId r) = Some m
               \<and> position m = - 1
               \<and> resPosition r = Some p
               \<and> p = fst (getQueuePosition (messageId r) (afterWrite md w))
               \<and> (if dbFault w (Suc (Suc (dbOps w))) = None
                   then 0 \<le> p \<and> p < int (length (pending w'))
                   else p = - 1)"
proof (cases "dbFault w (Suc (dbOps w))")
  case (Some m)
  then show ?thesis
    using assms(2) by (simp add: addMessage_rejected)
next
  case None
  let ?k = "uuids w (uuidCount w)"
  let ?a = "afterWrite md w"
  have r: "r = \<lparr>success = True, resMethod = Queued, messageId = ?k, resTimestamp = now w,
                 resPosition = Some (fst (getQueuePosition ?k ?a)), error = None\<rparr>"
    and w': "w' = ?a\<lparr>dbOps := Suc (Suc (Suc (dbOps w)))\<rparr>"
    using assms(2) addMessage_written [OF None, of md] by simp_all
  have stored: "map_of (pending w') ?k
      = Some (pendingRecord (queueData md ?k (now w) (fst (getQueuePosition ?k w))) (now w))"
    by (simp add: w' afterWrite_def map_of_putChild)
  have pos: "position (pendingRecord (queueData md ?k (now w) (fst (getQueuePosition ?k w))) (now w)) = - 1"
    using getQueuePosition_absent [OF assms(1)]
    by (simp add: pendingRecord_def queueData_def QueueMessage.extend_def StoredMessage.fields_def)
  have mem: "?k \<in> set (map fst (pending ?a))"
    unfolding afterWrite_def using keys_putChild [of ?k _ "pending w"] by simp
  have ops: "dbOps ?a = Suc (Suc (dbOps w))" "dbFault ?a = dbFault w" "pending w' = pending ?a"
    by (simp_all add: afterWrite_def w')
  have rank: "if dbFault w (Suc (Suc (dbOps w))) = None
      then 0 \<le> fst (getQueuePosition ?k ?a) \<and> fst (getQueuePosition ?k ?a) < int (length (pending w'))
      else fst (getQueuePosition ?k ?a) = - 1"
  proof (cases "dbFault w (Suc (Suc (dbOps w)))")
    case None
    then have "dbFault ?a (dbOps ?a) = None" by (simp add: ops)
    from getQueuePosition_present [OF mem this] None show ?thesis by (simp add: ops)
  next
    case (Some e)
    then have "dbFault ?a (dbOps ?a) = Some e" by (simp add: ops)
    from getQueuePosition_faulty [OF this] Some show ?thesis by simp
  qed
  show ?thesis
    using stored pos rank by (simp add: r)
qed

theorem addMessage_stored_position_witness:
  "uuids (exampleWorld [storedAt ''m1'' 1500]) (uuidCount (exampleWorld [storedAt ''m1'' 1500]))
     \<notin> set (map fst (pending (exampleWorld [storedAt ''m1'' 1500])))
   \<and> fst (addMessage exampleData (exampleWorld [storedAt ''m1'' 1500]))
       = Inr \<lparr>success = True, resMethod = Queued, messageId = ''uuid-0'', resTimestamp = 2000,
               resPosition = Some 1, error = None\<rparr>
   \<and> map (\<lambda>km. (fst km, position (snd km), queuedAt (snd km)))
         (pending (snd (addMessage exampleData (exampleWorld [storedAt ''m1'' 1500]))))
       = [(''m1'', - 1, 1500), (''uuid-0'', - 1, 2000)]"
  using addMessage_stored_position [of "exampleWorld [storedAt ''m1'' 1500]" exampleData
      "\<lparr>success = True, resMethod = Queued, messageId = ''uuid-0'', resTimestamp = 2000,
        resPosition = Some 1, error = None\<rparr>"
      "snd (addMessage exampleData (exampleWorld [storedAt ''m1'' 1500]))"]
  by (simp add: addMessage_def generateMessageId_def getQueuePosition_def oncePending_def
      setPending_def exampleWorld_def storedAt_def exampleData_def queuedAtOf_def
      pendingRecord_def queueData_def QueueMessage.extend_def StoredMessage.fields_def Let_def)

section \<open>QueueManager.conditionalAdd\<close>

lemma getQueueStatus_serverAlive: "serverAlive (fst (getQueueStatus w)) = None"
  by (simp add: getQueueStatus_def oncePending_def onceProcessing_def onceHeartbeat_def
      emptyStatus_def Let_def split: option.splits)

lemma default_policy_always_adds:
  "evaluateConditions (fst (getQueueStatus w)) \<lparr>custom = None\<rparr> = (True, ''server_offline'')"
  by (simp add: evaluateConditions_def getQueueStatus_serverAlive)

lemma conditionalAdd_predicate_throws:
  assumes "f (fst (getQueueStatus w)) = Inl e"
  shows "conditionalAdd md \<lparr>custom = Some f\<rparr> w =
           (Inr \<lparr>caSuccess = False, caMethod = ''condition_failed'',
                  caReason = Some (''custom_condition_error: '' @ errorMessage e),
                  caQueueStatus = Some (fst (getQueueStatus w)),
                  caMessageId = None, caTimestamp = None, caPosition = None\<rparr>,
            snd (getQueueStatus w))"
  using assms by (simp add: conditionalAdd_def evaluateConditions_def split_beta)

text \<open>
  Claim C3, at the input where the code departs from it. The worker's heartbeat is alive
  and 10 ms old, so \<open>isServerAlive\<close> holds, and nothing is pending or processing. With no
  predicate of the caller, \<open>conditionalAdd\<close> enqueues the message all the same: the status
  object carries no \<^verbatim>\<open>serverAlive\<close>, and the default policy reads its absence as a worker
  that is offline.
\<close>

theorem conditionalAdd_alive_idle_enqueues:
  "isServerAlive (heartbeatNode (exampleWorld [])) (now (exampleWorld []))
   \<and> totalMessages (fst (getQueueStatus (exampleWorld []))) = 0
   \<and> fst (conditionalAdd exampleData \<lparr>custom = None\<rparr> (exampleWorld []))
       = Inr \<lparr>caSuccess = True, caMethod = ''queued'', caReason = None, caQueueStatus = None,
               caMessageId = Some ''uuid-0'', caTimestamp = Some 2000, caPosition = Some 0\<rparr>
   \<and> map fst (pending (snd (conditionalAdd exampleData \<lparr>custom = None\<rparr> (exampleWorld []))))
       = [''uuid-0'']"
  by (simp add: conditionalAdd_def evaluateConditions_def getQueueStatus_def onceProcessing_def
      onceHeartbeat_def isServerAlive_def orUndefined_def
      addMessage_def generateMessageId_def getQueuePosition_def oncePending_def
      setPending_def exampleWorld_def exampleData_def queuedAtOf_def
      pendingRecord_def queueData_def QueueMessage.extend_def StoredMessage.fields_def Let_def)

section \<open>What each operation leaves alone\<close>

lemma isServerHealthy_frame:
  "dbOps (snd (isServerHealthy w)) = dbOps w"
  "dbFault (snd (isServerHealthy w)) = dbFault w"
  "pending (snd (isServerHealthy w)) = pending w"
  "processing (snd (isServerHealthy w)) = processing w"
  "apiSent (snd (isServerHealthy w)) = apiSent w"
  "now (snd (isServerHealthy w)) = now w"
  "apiOutcome (snd (isServerHealthy w)) = apiOutcome w"
  by (simp_all add: isServerHealthy_def checkServerHealth_def split: probe.splits)

lemma getQueueStatus_world: "snd (getQueueStatus w) = w\<lparr>dbOps := Suc (Suc (Suc (dbOps w)))\<rparr>"
  by (simp add: getQueueStatus_def oncePending_def onceProcessing_def onceHeartbeat_def
      Let_def split: option.splits)

lemma addMessage_apiSent: "apiSent (snd (addMessage md w)) = apiSent w"
proof (cases "dbFault w (Suc (dbOps w))")
  case None
  then show ?thesis by (simp add: addMessage_written afterWrite_def)
next
  case (Some m)
  then show ?thesis by (simp add: addMessage_rejected)
qed

lemma addMessage_result:
  assumes "addMessage md w = (Inr r, w')"
  shows "success r" and "resMethod r = Queued" and "error r = None"
    and "messageId r \<in> set (map fst (pending w'))"
proof -
  have ok: "dbFault w (Suc (dbOps w)) = None"
  proof (cases "dbFault w (Suc (dbOps w))")
    case (Some m)
    then show ?thesis using assms by (simp add: addMessage_rejected)
  qed simp
  have r: "r = \<lparr>success = True, resMethod = Queued, messageId = uuids w (uuidCount w),
                resTimestamp = now w,
                resPosition = Some (fst (getQueuePosition (uuids w (uuidCount w)) (afterWrite md w))),
                error = None\<rparr>"
    and w': "w' = (afterWrite md w)\<lparr>dbOps := Suc (Suc (Suc (dbOps w)))\<rparr>"
    using assms addMessage_written [OF ok, of md] by simp_all
  show "success r" "resMethod r = Queued" "error r = None" by (simp_all add: r)
  show "messageId r \<in> set (map fst (pending w'))"
    unfolding r w' afterWrite_def using keys_putChild [of "uuids w (uuidCount w)" _ "pending w"]
    by simp
qed

lemma addMessage_outcome:
  "(\<exists>r w'. addMessage md w = (Inr r, w')) \<longleftrightarrow> dbFault w (Suc (dbOps w)) = None"
proof (cases "dbFault w (Suc (dbOps w))")
  case None
  then show ?thesis by (simp add: addMessage_written)
next
  case (Some m)
  then show ?thesis by (simp add: addMessage_rejected)
qed

lemma apiSendMessage_apiSent:
  "apiSent (snd (apiSendMessage n msg opts w)) = apiSent w @ [(n, msg, opts)]"
  by (simp add: apiSendMessage_def makeApiRequest_def split: sum.splits)

lemma apiSendMessage_store:
  "dbOps (snd (apiSendMessage n msg opts w)) = dbOps w"
  "dbFault (snd (apiSendMessage n msg opts w)) = dbFault w"
  "pending (snd (apiSendMessage n msg opts w)) = pending w"
  by (simp_all add: apiSendMessage_def makeApiRequest_def split: sum.splits)

lemma sendDirectWithFallback_apiSent:
  "apiSent (snd (sendDirectWithFallback md w))
     = apiSent w @ [(number md, message md, options md)]"
proof (cases "apiSendMessage (number md) (message md) (options md) w")
  case (Pair x w1)
  have w1: "apiSent w1 = apiSent w @ [(number md, message md, options md)]"
    using apiSendMessage_apiSent [of "number md" "message md" "options md" w] Pair by simp
  show ?thesis
  proof (cases x)
    case (Inr result)
    then show ?thesis using Pair w1 by (simp add: sendDirectWithFallback_def)
  next
    case (Inl e)
    obtain y w2 where a: "addMessage md w1 = (y, w2)" by (cases "addMessage md w1")
    have "apiSent w2 = apiSent w1" using addMessage_apiSent [of md w1] a by simp
    then show ?thesis
      using Pair Inl a w1 by (cases y) (simp_all add: sendDirectWithFallback_def)
  qed
qed

lemma sendDirectWithFallback_success:
  assumes "sendDirectWithFallback md w = (Inr r, w')"
  shows "success r"
proof (cases "apiSendMessage (number md) (message md) (options md) w")
  case (Pair x w1)
  show ?thesis
  proof (cases x)
    case (Inr result)
    then show ?thesis using Pair assms by (auto simp: sendDirectWithFallback_def)
  next
    case (Inl e)
    obtain y w2 where a: "addMessage md w1 = (y, w2)" by (cases "addMessage md w1")
    show ?thesis
    proof (cases y)
      case (Inl e')
      then show ?thesis using Pair \<open>x = Inl e\<close> a assms by (simp add: sendDirectWithFallback_def)
    next
      case (Inr q)
      then have "success q" using addMessage_result(1) a by simp
      then show ?thesis
        using Pair \<open>x = Inl e\<close> a Inr assms by (auto simp: sendDirectWithFallback_def)
    qed
  qed
qed

section \<open>Whaple.sendMessage under smart routing\<close>

text \<open>The world in which the routing test is made: the health check and the three reads
  of the queue status are done.\<close>

lemma decided_frame:
  "apiSent (decided w) = apiSent w"
  "now (decided w) = now w"
  "dbOps (decided w) = Suc (Suc (Suc (dbOps w)))"
  "dbFault (decided w) = dbFault w"
  "pending (decided w) = pending w"
  "apiOutcome (decided w) = apiOutcome w"
  by (simp_all add: decided_def getQueueStatus_world isServerHealthy_frame)

lemma sendMessage_smart:
  assumes "enableSmartRouting wh" and "\<not> useDirectWhatsApp wh \<or> whatsappConnection wh = None"
    and "normalizePhoneNumber num = Inr n"
  shows "sendMessage wh num msg opts w =
           rethrow ''Failed to send message: ''
             (smartRoutingDecision wh (buildMessageData n msg opts w) w)"
  using assms by (auto simp: sendMessage_def)

lemma smartRoutingDecision_queue:
  assumes "shouldUseQueue wh (healthSeen w) (statusSeen w)"
  shows "smartRoutingDecision wh md w =
           (case addMessage md (decided w) of
              (Inr r, w3) \<Rightarrow> (Inr r, w3)
            | (Inl e, w3) \<Rightarrow> addMessage md w3)"
  using assms
  by (simp add: smartRoutingDecision_def healthSeen_def statusSeen_def decided_def split_beta)

lemma smartRoutingDecision_direct:
  assumes "\<not> shouldUseQueue wh (healthSeen w) (statusSeen w)"
  shows "smartRoutingDecision wh md w =
           (case sendDirectWithFallback md (decided w) of
              (Inr r, w3) \<Rightarrow> (Inr r, w3)
            | (Inl e, w3) \<Rightarrow> addMessage md w3)"
  using assms
  by (simp add: smartRoutingDecision_def healthSeen_def statusSeen_def decided_def split_beta)

lemma rethrow_world: "snd (rethrow p x) = snd x"
  by (simp add: rethrow_def split: prod.splits sum.splits)

lemma rethrow_Inr: "rethrow p x = (Inr r, w') \<longleftrightarrow> x = (Inr r, w')"
  by (auto simp: rethrow_def split: prod.splits sum.splits)

text \<open>
  The routing rule on every input. For an instance built by the constructor that is not
  in direct-WhatsApp mode and routes smartly, and for every world (so every health
  boolean and every queue status that the call can see): the routing test is
  \<open>\<not> isHealthy \<or> pendingMessages > queueThreshold \<or> processingMessages > 0\<close>, where the
  threshold is 0 when the caller's configuration has no \<^verbatim>\<open>queueThreshold\<close> key and the
  caller's number when it has one; a key given as \<^verbatim>\<open>undefined\<close> leaves no threshold, and
  the test on the pending count is then never true. When the test holds, no request goes
  to the send endpoint, and an enqueue that succeeds (it does when the store accepts its
  write) is what \<open>sendMessage\<close> returns, with method \<open>Queued\<close>, the message being stored
  pending under the returned id with its number, text, options and priority. When the
  test does not hold, exactly one request goes to the send endpoint, with this message.
\<close>

theorem smart_routing_decides:
  assumes "newWhaple env config = Inr wh"
    and "enableSmartRouting wh" and "\<not> useDirectWhatsApp wh"
    and "normalizePhoneNumber num = Inr n"
  shows "(shouldUseQueue wh (healthSeen w) (statusSeen w)
            = (\<not> healthSeen w
               \<or> (case cfgQueueThreshold config of
                     Absent \<Rightarrow> int (pendingMessages (statusSeen w)) > 0
                   | Undefined \<Rightarrow> False
                   | Given t \<Rightarrow> int (pendingMessages (statusSeen w)) > t)
               \<or> processingMessages (statusSeen w) > 0))
         \<and> (if shouldUseQueue wh (healthSeen w) (statusSeen w)
             then apiSent (snd (sendMessage wh num msg opts w)) = apiSent w
                  \<and> (dbFault w (dbOps w + 4) = None
                        \<longrightarrow> (\<exists>r w3. addMessage (buildMessageData n msg opts w) (decided w)
                                       = (Inr r, w3)))
                  \<and> (\<forall>r w3. addMessage (buildMessageData n msg opts w) (decided w) = (Inr r, w3)
                        \<longrightarrow> sendMessage wh num msg opts w = (Inr r, w3)
                            \<and> resMethod r = Queued \<and> success r
                            \<and> (\<exists>m. map_of (pending w3) (messageId r) = Some m
                                   \<and> number m = n \<and> message m = msg \<and> options m = opts
                                   \<and> source m = ''sdk'' \<and> version m = ''1.0.0''
                                   \<and> priority m
                                       = (case optPriority opts of None \<Rightarrow> Medium | Some p \<Rightarrow> p)
                                   \<and> id' m = messageId r \<and> status m = Pending
                                   \<and> retryCount m = 0 \<and> queuedAt m = now w))
             else apiSent (snd (sendMessage wh num msg opts w)) = apiSent w @ [(n, msg, opts)])"
proof -
  let ?md = "buildMessageData n msg opts w"
  let ?R = "sendMessage wh num msg opts w"
  have thr: "queueThreshold wh = spread (cfgQueueThreshold config) (Some 0)"
    using assms(1) by (auto simp: newWhaple_def Let_def split: if_splits option.splits)
  have test: "shouldUseQueue wh (healthSeen w) (statusSeen w)
      = (\<not> healthSeen w
         \<or> (case cfgQueueThreshold config of
               Absent \<Rightarrow> int (pendingMessages (statusSeen w)) > 0
             | Undefined \<Rightarrow> False
             | Given t \<Rightarrow> int (pendingMessages (statusSeen w)) > t)
         \<or> processingMessages (statusSeen w) > 0)"
    by (cases "cfgQueueThreshold config") (simp_all add: shouldUseQueue_def thr spread_def)
  have R: "?R = rethrow ''Failed to send message: '' (smartRoutingDecision wh ?md w)"
    using assms by (intro sendMessage_smart) simp_all
  have md: "number ?md = n" "message ?md = msg" "options ?md = opts" "source ?md = ''sdk''"
    "version ?md = ''1.0.0''"
    "priority ?md = (case optPriority opts of None \<Rightarrow> Medium | Some p \<Rightarrow> p)"
    by (simp_all add: buildMessageData_def)
  have route: "if shouldUseQueue wh (healthSeen w) (statusSeen w)
      then apiSent (snd ?R) = apiSent w
           \<and> (dbFault w (dbOps w + 4) = None
                 \<longrightarrow> (\<exists>r w3. addMessage ?md (decided w) = (Inr r, w3)))
           \<and> (\<forall>r w3. addMessage ?md (decided w) = (Inr r, w3)
                 \<longrightarrow> ?R = (Inr r, w3) \<and> resMethod r = Queued \<and> success r
                     \<and> (\<exists>m. map_of (pending w3) (messageId r) = Some m
                            \<and> number m = n \<and> message m = msg \<and> options m = opts
                            \<and> source m = ''sdk'' \<and> version m = ''1.0.0''
                            \<and> priority m
                                = (case optPriority opts of None \<Rightarrow> Medium | Some p \<Rightarrow> p)
                            \<and> id' m = messageId r \<and> status m = Pending
                            \<and> retryCount m = 0 \<and> queuedAt m = now w))
      else apiSent (snd ?R) = apiSent w @ [(n, msg, opts)]"
  proof (cases "shouldUseQueue wh (healthSeen w) (statusSeen w)")
    case True
    note q = smartRoutingDecision_queue [OF True, of ?md]
    obtain y w3 where a: "addMessage ?md (decided w) = (y, w3)"
      by (cases "addMessage ?md (decided w)")
    have w3: "apiSent w3 = apiSent w"
      using addMessage_apiSent [of ?md "decided w"] a by (simp add: decided_frame)
    have calls: "apiSent (snd ?R) = apiSent w"
    proof (cases y)
      case (Inr r)
      then show ?thesis using a w3 by (simp add: R rethrow_world q)
    next
      case (Inl e)
      then show ?thesis
        using a w3 addMessage_apiSent [of ?md w3] by (simp add: R rethrow_world q)
    qed
    have n4: "dbOps w + 4 = Suc (dbOps (decided w))" by (simp add: decided_frame)
    have accepted: "\<exists>r w3. addMessage ?md (decided w) = (Inr r, w3)"
      if "dbFault w (dbOps w + 4) = None"
    proof -
      have "dbFault (decided w) (Suc (dbOps (decided w))) = None"
        using that unfolding n4 by (simp add: decided_frame)
      then show ?thesis using addMessage_outcome [of ?md "decided w"] by simp
    qed
    have stored: "?R = (Inr r, w') \<and> resMethod r = Queued \<and> success r
        \<and> (\<exists>m. map_of (pending w') (messageId r) = Some m
               \<and> number m = n \<and> message m = msg \<and> options m = opts
               \<and> source m = ''sdk'' \<and> version m = ''1.0.0''
               \<and> priority m = (case optPriority opts of None \<Rightarrow> Medium | Some p \<Rightarrow> p)
               \<and> id' m = messageId r \<and> status m = Pending
               \<and> retryCount m = 0 \<and> queuedAt m = now w)"
      if enq: "addMessage ?md (decided w) = (Inr r, w')" for r w'
    proof -
      have ret: "?R = (Inr r, w')" using enq by (simp add: R q rethrow_def)
      from addMessage_stores [OF enq] obtain m where
        m: "map_of (pending w') (messageId r) = Some m"
          "number m = number ?md" "message m = message ?md" "options m = options ?md"
          "source m = source ?md" "version m = version ?md" "priority m = priority ?md"
          "id' m = messageId r" "status m = Pending" "retryCount m = 0"
          "queuedAt m = now (decided w)"
        by blast
      have "map_of (pending w') (messageId r) = Some m
          \<and> number m = n \<and> message m = msg \<and> options m = opts
          \<and> source m = ''sdk'' \<and> version m = ''1.0.0''
          \<and> priority m = (case optPriority opts of None \<Rightarrow> Medium | Some p \<Rightarrow> p)
          \<and> id' m = messageId r \<and> status m = Pending
          \<and> retryCount m = 0 \<and> queuedAt m = now w"
        using m md by (simp add: decided_frame)
      then show ?thesis
        using ret addMessage_result(1,2) [OF enq] by blast
    qed
    show ?thesis using True calls accepted stored by simp
  next
    case False
    note d = smartRoutingDecision_direct [OF False, of ?md]
    obtain y w3 where a: "sendDirectWithFallback ?md (decided w) = (y, w3)"
      by (cases "sendDirectWithFallback ?md (decided w)")
    have w3: "apiSent w3 = apiSent w @ [(n, msg, opts)]"
      using sendDirectWithFallback_apiSent [of ?md "decided w"] a
      by (simp add: decided_frame md)
    have "apiSent (snd ?R) = apiSent w @ [(n, msg, opts)]"
    proof (cases y)
      case (Inr r)
      then show ?thesis using a w3 by (simp add: R rethrow_world d)
    next
      case (Inl e)
      then show ?thesis
        using a w3 addMessage_apiSent [of ?md w3] by (simp add: R rethrow_world d)
    qed
    then show ?thesis using False by simp
  qed
  show ?thesis using test route by (rule conjI)
qed

theorem smart_routing_decides_witness:
  "newWhaple exampleEnv exampleConfig = Inr exampleWhaple
   \<and> enableSmartRouting exampleWhaple \<and> \<not> useDirectWhatsApp exampleWhaple
   \<and> normalizePhoneNumber ''+15555550123'' = Inr ''+15555550123''
   \<and> shouldUseQueue exampleWhaple (healthSeen (exampleWorld [storedAt ''m1'' 1500]))
        (statusSeen (exampleWorld [storedAt ''m1'' 1500]))
   \<and> dbFault (exampleWorld [storedAt ''m1'' 1500])
        (dbOps (exampleWorld [storedAt ''m1'' 1500]) + 4) = None
   \<and> sendMessage exampleWhaple ''+15555550123'' ''hi'' noOptions (exampleWorld [storedAt ''m1'' 1500])
       = addMessage (buildMessageData ''+15555550123'' ''hi'' noOptions (exampleWorld [storedAt ''m1'' 1500]))
           (decided (exampleWorld [storedAt ''m1'' 1500]))
   \<and> fst (sendMessage exampleWhaple ''+15555550123'' ''hi'' noOptions (exampleWorld [storedAt ''m1'' 1500]))
       = Inr \<lparr>success = True, resMethod = Queued, messageId = ''uuid-0'', resTimestamp = 2000,
               resPosition = Some 1, error = None\<rparr>
   \<and> apiSent (snd (sendMessage exampleWhaple ''+15555550123'' ''hi'' noOptions
                      (exampleWorld [storedAt ''m1'' 1500]))) = []"
proof -
  let ?w = "exampleWorld [storedAt ''m1'' 1500]"
  let ?md = "buildMessageData ''+15555550123'' ''hi'' noOptions ?w"
  have c: "newWhaple exampleEnv exampleConfig = Inr exampleWhaple"
    by (simp add: newWhaple_def exampleEnv_def exampleConfig_def exampleWhaple_def orElse_def
        spread_def)
  have s: "enableSmartRouting exampleWhaple" "\<not> useDirectWhatsApp exampleWhaple"
    by (simp_all add: exampleWhaple_def)
  have n: "normalizePhoneNumber ''+15555550123'' = Inr ''+15555550123''"
    by (simp add: normalizePhoneNumber_def keptChar_def isDigit_def startsWith_def)
  have q: "shouldUseQueue exampleWhaple (healthSeen ?w) (statusSeen ?w)"
    by (simp add: shouldUseQueue_def statusSeen_def getQueueStatus_def oncePending_def
        onceProcessing_def onceHeartbeat_def isServerHealthy_frame exampleWorld_def
        exampleWhaple_def Let_def)
  have a_fst: "fst (addMessage ?md (decided ?w))
      = Inr \<lparr>success = True, resMethod = Queued, messageId = ''uuid-0'', resTimestamp = 2000,
              resPosition = Some 1, error = None\<rparr>"
    by (simp add: decided_def getQueueStatus_world isServerHealthy_def isCacheValid_def
        checkServerHealth_def
        addMessage_def generateMessageId_def getQueuePosition_def oncePending_def
        setPending_def exampleWorld_def storedAt_def exampleData_def queuedAtOf_def
        buildMessageData_def noOptions_def
        pendingRecord_def queueData_def QueueMessage.extend_def StoredMessage.fields_def Let_def)
  then have a: "addMessage ?md (decided ?w)
      = (Inr \<lparr>success = True, resMethod = Queued, messageId = ''uuid-0'', resTimestamp = 2000,
               resPosition = Some 1, error = None\<rparr>, snd (addMessage ?md (decided ?w)))"
    by (simp add: prod_eq_iff)
  have api: "apiSent ?w = []" "dbFault ?w (dbOps ?w + 4) = None"
    by (simp_all add: exampleWorld_def)
  from smart_routing_decides [OF c s n, of ?w "''hi''" noOptions] q a
  have "sendMessage exampleWhaple ''+15555550123'' ''hi'' noOptions ?w
          = (Inr \<lparr>success = True, resMethod = Queued, messageId = ''uuid-0'',
                   resTimestamp = 2000, resPosition = Some 1, error = None\<rparr>,
             snd (addMessage ?md (decided ?w)))"
    and "apiSent (snd (sendMessage exampleWhaple ''+15555550123'' ''hi'' noOptions ?w)) = apiSent ?w"
    by metis+
  then show ?thesis using c s n q a_fst api by (simp add: prod_eq_iff)
qed

text \<open>
  Claim C1, at the input where the code departs from it. The caller's configuration holds
  \<^verbatim>\<open>queueThreshold: undefined\<close>: the constructor computes the default 0 and the spread of
  the configuration copies \<^verbatim>\<open>undefined\<close> over it. One message is pending, the backend is
  healthy and nothing is processing, so with the threshold 0 the message would be queued;
  it goes to the send endpoint instead, and nothing is added to the pending partition.
\<close>

theorem undefined_threshold_sends_direct:
  "newWhaple exampleEnv (exampleConfig\<lparr>cfgQueueThreshold := Undefined\<rparr>)
     = Inr (exampleWhaple\<lparr>queueThreshold := None\<rparr>)
   \<and> healthSeen (exampleWorld [storedAt ''m1'' 1500])
   \<and> pendingMessages (statusSeen (exampleWorld [storedAt ''m1'' 1500])) = 1
   \<and> processingMessages (statusSeen (exampleWorld [storedAt ''m1'' 1500])) = 0
   \<and> fst (sendMessage (exampleWhaple\<lparr>queueThreshold := None\<rparr>) ''+15555550123'' ''hi'' noOptions
            (exampleWorld [storedAt ''m1'' 1500]))
       = Inr \<lparr>success = True, resMethod = Direct, messageId = ''wamid-1'', resTimestamp = 2000,
               resPosition = None, error = None\<rparr>
   \<and> map fst (pending (snd (sendMessage (exampleWhaple\<lparr>queueThreshold := None\<rparr>)
                               ''+15555550123'' ''hi'' noOptions
                               (exampleWorld [storedAt ''m1'' 1500]))))
       = [''m1'']
   \<and> apiSent (snd (sendMessage (exampleWhaple\<lparr>queueThreshold := None\<rparr>)
                      ''+15555550123'' ''hi'' noOptions (exampleWorld [storedAt ''m1'' 1500])))
       = [(''+15555550123'', ''hi'', noOptions)]"
  by (simp add: newWhaple_def exampleEnv_def exampleConfig_def exampleWhaple_def orElse_def
      spread_def sendMessage_def smartRoutingDecision_def shouldUseQueue_def
      sendDirectWithFallback_def apiSendMessage_def makeApiRequest_def orUndefined_def
      normalizePhoneNumber_def keptChar_def isDigit_def startsWith_def buildMessageData_def
      rethrow_def healthSeen_def statusSeen_def
      isServerHealthy_def isCacheValid_def checkServerHealth_def
      getQueueStatus_def oncePending_def onceProcessing_def onceHeartbeat_def
      exampleWorld_def storedAt_def noOptions_def Let_def)

text \<open>
  Claim C2. Under smart routing, when the routing test sends the message to the send
  endpoint, the request fails with \<open>e\<close> and the enqueue that follows succeeds with \<open>q\<close>,
  \<open>sendMessage\<close> returns \<open>success = True\<close>, the method of \<open>q\<close> (which is \<open>Queued\<close>) and the
  error of the direct path in its \<open>error\<close> field. Every result that a smartly routed
  \<open>sendMessage\<close> returns has \<open>success = True\<close>, so none reports \<open>success = False\<close> unless
  both the direct attempt and its fallback failed: when they both do, the enqueue is tried
  once more and the call returns that result or throws.
\<close>

theorem direct_failure_falls_back:
  assumes "enableSmartRouting wh" and "\<not> useDirectWhatsApp wh \<or> whatsappConnection wh = None"
    and "normalizePhoneNumber num = Inr n"
  shows "(\<forall>e q w3.
            \<not> shouldUseQueue wh (healthSeen w) (statusSeen w)
            \<and> apiSendMessage n msg opts (decided w) = (Inl e, afterApi)
            \<and> addMessage (buildMessageData n msg opts w) afterApi = (Inr q, w3)
            \<longrightarrow> sendMessage wh num msg opts w
                  = (Inr \<lparr>success = True, resMethod = resMethod q, messageId = messageId q,
                          resTimestamp = resTimestamp q, resPosition = resPosition q,
                          error = Some (''Fallback: '' @ errorMessage e)\<rparr>, w3)
                \<and> resMethod q = Queued)
         \<and> (\<forall>r w'. sendMessage wh num msg opts w = (Inr r, w') \<longrightarrow> success r)
         \<and> (\<forall>e e' w3.
               \<not> shouldUseQueue wh (healthSeen w) (statusSeen w)
               \<and> apiSendMessage n msg opts (decided w) = (Inl e, afterApi)
               \<and> addMessage (buildMessageData n msg opts w) afterApi = (Inl e', w3)
               \<longrightarrow> sendMessage wh num msg opts w
                     = rethrow ''Failed to send message: ''
                         (addMessage (buildMessageData n msg opts w) w3))"
proof -
  let ?md = "buildMessageData n msg opts w"
  let ?R = "sendMessage wh num msg opts w"
  have R: "?R = rethrow ''Failed to send message: '' (smartRoutingDecision wh ?md w)"
    using assms by (rule sendMessage_smart)
  have md: "number ?md = n" "message ?md = msg" "options ?md = opts"
    by (simp_all add: buildMessageData_def)
  have fallback: "?R = (Inr \<lparr>success = True, resMethod = resMethod q, messageId = messageId q,
                          resTimestamp = resTimestamp q, resPosition = resPosition q,
                          error = Some (''Fallback: '' @ errorMessage e)\<rparr>, w3)
                \<and> resMethod q = Queued"
    if d: "\<not> shouldUseQueue wh (healthSeen w) (statusSeen w)"
      and api: "apiSendMessage n msg opts (decided w) = (Inl e, afterApi)"
      and enq: "addMessage ?md afterApi = (Inr q, w3)" for e q w3
  proof -
    have "sendDirectWithFallback ?md (decided w)
        = (Inr \<lparr>success = success q, resMethod = resMethod q, messageId = messageId q,
                 resTimestamp = resTimestamp q, resPosition = resPosition q,
                 error = Some (''Fallback: '' @ errorMessage e)\<rparr>, w3)"
      using api enq by (simp add: sendDirectWithFallback_def md)
    then show ?thesis
      using addMessage_result(1,2) [OF enq]
      by (simp add: R smartRoutingDecision_direct [OF d] rethrow_def)
  qed
  have succ: "success r" if ret: "?R = (Inr r, w')" for r w'
  proof -
    have s: "smartRoutingDecision wh ?md w = (Inr r, w')"
      using ret by (simp add: R rethrow_Inr)
    show ?thesis
    proof (cases "shouldUseQueue wh (healthSeen w) (statusSeen w)")
      case True
      obtain y w3 where a: "addMessage ?md (decided w) = (y, w3)"
        by (cases "addMessage ?md (decided w)")
      show ?thesis
      proof (cases y)
        case (Inr r')
        then show ?thesis
          using s a addMessage_result(1) [of ?md "decided w" r' w3]
          by (simp add: smartRoutingDecision_queue [OF True])
      next
        case (Inl e)
        then have "addMessage ?md w3 = (Inr r, w')"
          using s a by (simp add: smartRoutingDecision_queue [OF True])
        then show ?thesis by (rule addMessage_result(1))
      qed
    next
      case False
      obtain y w3 where a: "sendDirectWithFallback ?md (decided w) = (y, w3)"
        by (cases "sendDirectWithFallback ?md (decided w)")
      show ?thesis
      proof (cases y)
        case (Inr r')
        then show ?thesis
          using s a sendDirectWithFallback_success [of ?md "decided w" r' w3]
          by (simp add: smartRoutingDecision_direct [OF False])
      next
        case (Inl e)
        then have "addMessage ?md w3 = (Inr r, w')"
          using s a by (simp add: smartRoutingDecision_direct [OF False])
        then show ?thesis by (rule addMessage_result(1))
      qed
    qed
  qed
  have both: "?R = rethrow ''Failed to send message: '' (addMessage ?md w3)"
    if d: "\<not> shouldUseQueue wh (healthSeen w) (statusSeen w)"
      and api: "apiSendMessage n msg opts (decided w) = (Inl e, afterApi)"
      and enq: "addMessage ?md afterApi = (Inl e', w3)" for e e' w3
  proof -
    have "sendDirectWithFallback ?md (decided w) = (Inl e', w3)"
      using api enq by (simp add: sendDirectWithFallback_def md)
    then show ?thesis
      by (simp add: R smartRoutingDecision_direct [OF d])
  qed
  show ?thesis using fallback succ both by blast
qed

theorem direct_failure_falls_back_witness:
  "enableSmartRouting exampleWhaple
   \<and> normalizePhoneNumber ''+15555550123'' = Inr ''+15555550123''
   \<and> \<not> shouldUseQueue exampleWhaple (healthSeen (apiDownWorld)) (statusSeen (apiDownWorld))
   \<and> fst (apiSendMessage ''+15555550123'' ''hi'' noOptions (decided apiDownWorld))
       = Inl (Error ''API request failed: Network error: ECONNRESET'')
   \<and> fst (sendMessage exampleWhaple ''+15555550123'' ''hi'' noOptions apiDownWorld)
       = Inr \<lparr>success = True, resMethod = Queued, messageId = ''uuid-0'', resTimestamp = 2000,
               resPosition = Some 0,
               error = Some ''Fallback: API request failed: Network error: ECONNRESET''\<rparr>"
proof -
  let ?w = "apiDownWorld"
  let ?md = "buildMessageData ''+15555550123'' ''hi'' noOptions ?w"
  let ?afterApi = "snd (apiSendMessage ''+15555550123'' ''hi'' noOptions (decided ?w))"
  let ?q = "\<lparr>success = True, resMethod = Queued, messageId = ''uuid-0'', resTimestamp = 2000,
             resPosition = Some 0, error = None\<rparr>"
  have s: "enableSmartRouting exampleWhaple"
    "\<not> useDirectWhatsApp exampleWhaple \<or> whatsappConnection exampleWhaple = None"
    by (simp_all add: exampleWhaple_def)
  have n: "normalizePhoneNumber ''+15555550123'' = Inr ''+15555550123''"
    by (simp add: normalizePhoneNumber_def keptChar_def isDigit_def startsWith_def)
  have d: "\<not> shouldUseQueue exampleWhaple (healthSeen ?w) (statusSeen ?w)"
    by (simp add: shouldUseQueue_def healthSeen_def statusSeen_def getQueueStatus_def
        oncePending_def onceProcessing_def onceHeartbeat_def isServerHealthy_def
        isCacheValid_def checkServerHealth_def apiDownWorld_def exampleWorld_def
        exampleWhaple_def Let_def)
  have api_fst: "fst (apiSendMessage ''+15555550123'' ''hi'' noOptions (decided ?w))
      = Inl (Error ''API request failed: Network error: ECONNRESET'')"
    by (simp add: apiSendMessage_def makeApiRequest_def decided_frame apiDownWorld_def
        exampleWorld_def)
  then have api: "apiSendMessage ''+15555550123'' ''hi'' noOptions (decided ?w)
      = (Inl (Error ''API request failed: Network error: ECONNRESET''), ?afterApi)"
    by (simp add: prod_eq_iff)
  have a: "addMessage ?md ?afterApi = (Inr ?q, snd (addMessage ?md ?afterApi))"
    by (simp add: apiSendMessage_def makeApiRequest_def
        decided_def getQueueStatus_world isServerHealthy_def isCacheValid_def
        checkServerHealth_def
        addMessage_def generateMessageId_def getQueuePosition_def oncePending_def
        setPending_def apiDownWorld_def exampleWorld_def queuedAtOf_def
        buildMessageData_def noOptions_def
        pendingRecord_def queueData_def QueueMessage.extend_def StoredMessage.fields_def Let_def)
  from direct_failure_falls_back [OF s n, of ?w "''hi''" noOptions ?afterApi] d api a
  have "sendMessage exampleWhaple ''+15555550123'' ''hi'' noOptions ?w
      = (Inr \<lparr>success = True, resMethod = resMethod ?q, messageId = messageId ?q,
               resTimestamp = resTimestamp ?q, resPosition = resPosition ?q,
               error = Some (''Fallback: '' @ errorMessage (Error ''API request failed: Network error: ECONNRESET''))\<rparr>,
         snd (addMessage ?md ?afterApi))"
    by blast
  then show ?thesis using s n d api_fst by simp
qed

section \<open>HealthChecker.isServerHealthy\<close>

lemma checkServerHealth_failed:
  assumes "probeFailed (healthProbe w)"
  shows "checkServerHealth w = (Inr False, w\<lparr>probes := Suc (probes w)\<rparr>)
         \<or> (\<exists>m. checkServerHealth w = (Inl (Error m), w\<lparr>probes := Suc (probes w)\<rparr>))"
  using assms by (cases "healthProbe w") (auto simp: checkServerHealth_def probeFailed_def)

lemma isServerHealthy_failed:
  assumes "\<not> isCacheValid w" and "probeFailed (healthProbe w)"
  shows "isServerHealthy w =
           (False, w\<lparr>probes := Suc (probes w), lastCheck := Some (now w),
                     lastResult := Some False\<rparr>)"
  using assms(1) checkServerHealth_failed [OF assms(2)]
  by (auto simp: isServerHealthy_def)

text \<open>
  Claim C9, as amended. When \<open>isServerHealthy\<close> makes a probe (it does when no unexpired
  result is cached) and the probe fails (a timeout, a network error, a status that is not
  a success), it returns \<open>False\<close>, caches it and throws nothing. A smartly routed
  \<open>sendMessage\<close> then sends nothing to the send endpoint. When the store accepts the write
  of the enqueue or of its one retry, the call returns a result with method \<open>Queued\<close> and
  the message is stored pending under the returned id, with its number, text, options and
  priority; when both writes are rejected, the call throws the store's error and the
  pending partition is as it was.
\<close>

theorem failed_probe_routes_to_queue:
  assumes "\<not> isCacheValid w" and "probeFailed (healthProbe w)"
    and "enableSmartRouting wh" and "\<not> useDirectWhatsApp wh \<or> whatsappConnection wh = None"
    and "normalizePhoneNumber num = Inr n"
  shows "isServerHealthy w
           = (False, w\<lparr>probes := Suc (probes w), lastCheck := Some (now w),
                       lastResult := Some False\<rparr>)
         \<and> apiSent (snd (sendMessage wh num msg opts w)) = apiSent w
         \<and> (dbFault w (dbOps w + 4) = None \<or> dbFault w (dbOps w + 6) = None
              \<longrightarrow> (\<exists>r m. fst (sendMessage wh num msg opts w) = Inr r
                         \<and> resMethod r = Queued \<and> success r
                         \<and> map_of (pending (snd (sendMessage wh num msg opts w))) (messageId r)
                             = Some m
                         \<and> number m = n \<and> message m = msg \<and> options m = opts
                         \<and> source m = ''sdk'' \<and> version m = ''1.0.0''
                         \<and> priority m
                             = (case optPriority opts of None \<Rightarrow> Medium | Some p \<Rightarrow> p)
                         \<and> id' m = messageId r \<and> status m = Pending
                         \<and> retryCount m = 0 \<and> queuedAt m = now w))
         \<and> (\<forall>e e'. dbFault w (dbOps w + 4) = Some e \<and> dbFault w (dbOps w + 6) = Some e'
              \<longrightarrow> fst (sendMessage wh num msg opts w)
                    = Inl (Error (''Failed to send message: Failed to queue message: '' @ e'))
                  \<and> pending (snd (sendMessage wh num msg opts w)) = pending w)"
proof -
  let ?md = "buildMessageData n msg opts w"
  let ?R = "sendMessage wh num msg opts w"
  have h: "isServerHealthy w
      = (False, w\<lparr>probes := Suc (probes w), lastCheck := Some (now w), lastResult := Some False\<rparr>)"
    using assms(1,2) by (rule isServerHealthy_failed)
  then have q: "shouldUseQueue wh (healthSeen w) (statusSeen w)"
    by (simp add: shouldUseQueue_def healthSeen_def)
  have R: "?R = rethrow ''Failed to send message: ''
      (case addMessage ?md (decided w) of
         (Inr r, w3) \<Rightarrow> (Inr r, w3)
       | (Inl e, w3) \<Rightarrow> addMessage ?md w3)"
    using sendMessage_smart [OF assms(3,4,5)] smartRoutingDecision_queue [OF q] by simp
  have md: "number ?md = n" "message ?md = msg" "options ?md = opts" "source ?md = ''sdk''"
    "version ?md = ''1.0.0''"
    "priority ?md = (case optPriority opts of None \<Rightarrow> Medium | Some p \<Rightarrow> p)"
    by (simp_all add: buildMessageData_def)
  let ?w3 = "(decided w)\<lparr>uuidCount := Suc (uuidCount (decided w)),
                         dbOps := Suc (Suc (dbOps (decided w)))\<rparr>"
  have n4: "dbOps w + 4 = Suc (Suc (Suc (Suc (dbOps w))))"
    and n6: "dbOps w + 6 = Suc (Suc (Suc (Suc (Suc (Suc (dbOps w))))))"
    by simp_all
  have first: "dbFault (decided w) (Suc (dbOps (decided w))) = dbFault w (dbOps w + 4)"
    by (simp add: decided_frame n4)
  have second: "dbFault ?w3 (Suc (dbOps ?w3)) = dbFault w (dbOps w + 6)"
    by (simp add: decided_frame n6)
  have retry: "?R = rethrow ''Failed to send message: '' (addMessage ?md ?w3)"
    if "dbFault w (dbOps w + 4) = Some e" for e
  proof -
    have "dbFault (decided w) (Suc (dbOps (decided w))) = Some e" using that first by simp
    from addMessage_rejected [OF this, of ?md] show ?thesis by (simp add: R)
  qed
  have direct_ok: "?R = rethrow ''Failed to send message: '' (addMessage ?md (decided w))"
    if "dbFault w (dbOps w + 4) = None"
  proof -
    have "dbFault (decided w) (Suc (dbOps (decided w))) = None" using that first by simp
    from addMessage_written [OF this, of ?md] show ?thesis by (simp add: R rethrow_def)
  qed
  have stored: "\<exists>r m. fst ?R = Inr r \<and> resMethod r = Queued \<and> success r
        \<and> map_of (pending (snd ?R)) (messageId r) = Some m
        \<and> number m = n \<and> message m = msg \<and> options m = opts
        \<and> source m = ''sdk'' \<and> version m = ''1.0.0''
        \<and> priority m = (case optPriority opts of None \<Rightarrow> Medium | Some p \<Rightarrow> p)
        \<and> id' m = messageId r \<and> status m = Pending
        \<and> retryCount m = 0 \<and> queuedAt m = now w"
    if eq: "?R = rethrow ''Failed to send message: '' (addMessage ?md v)"
      and ok: "dbFault v (Suc (dbOps v)) = None" and t: "now v = now w" for v
  proof -
    from ok addMessage_outcome [of ?md v] obtain r w' where enq: "addMessage ?md v = (Inr r, w')"
      by blast
    have ret: "?R = (Inr r, w')" using enq by (simp add: eq rethrow_def)
    from addMessage_stores [OF enq] obtain m where
      m: "map_of (pending w') (messageId r) = Some m"
        "number m = number ?md" "message m = message ?md" "options m = options ?md"
        "source m = source ?md" "version m = version ?md" "priority m = priority ?md"
        "id' m = messageId r" "status m = Pending" "retryCount m = 0"
        "queuedAt m = now v"
      by blast
    have "fst ?R = Inr r \<and> resMethod r = Queued \<and> success r
        \<and> map_of (pending (snd ?R)) (messageId r) = Some m
        \<and> number m = n \<and> message m = msg \<and> options m = opts
        \<and> source m = ''sdk'' \<and> version m = ''1.0.0''
        \<and> priority m = (case optPriority opts of None \<Rightarrow> Medium | Some p \<Rightarrow> p)
        \<and> id' m = messageId r \<and> status m = Pending
        \<and> retryCount m = 0 \<and> queuedAt m = now w"
      using m md t addMessage_result(1,2) [OF enq] by (simp add: ret)
    then show ?thesis by blast
  qed
  have calls: "apiSent (snd ?R) = apiSent w"
  proof (cases "dbFault w (dbOps w + 4)")
    case None
    then show ?thesis
      using direct_ok addMessage_apiSent [of ?md "decided w"]
      by (simp add: rethrow_world decided_frame)
  next
    case (Some e)
    then show ?thesis
      using retry addMessage_apiSent [of ?md ?w3] by (simp add: rethrow_world decided_frame)
  qed
  have accepted: "\<exists>r m. fst ?R = Inr r \<and> resMethod r = Queued \<and> success r
        \<and> map_of (pending (snd ?R)) (messageId r) = Some m
        \<and> number m = n \<and> message m = msg \<and> options m = opts
        \<and> source m = ''sdk'' \<and> version m = ''1.0.0''
        \<and> priority m = (case optPriority opts of None \<Rightarrow> Medium | Some p \<Rightarrow> p)
        \<and> id' m = messageId r \<and> status m = Pending
        \<and> retryCount m = 0 \<and> queuedAt m = now w"
    if "dbFault w (dbOps w + 4) = None \<or> dbFault w (dbOps w + 6) = None"
  proof (cases "dbFault w (dbOps w + 4)")
    case None
    show ?thesis
    proof (rule stored [OF direct_ok [OF None]])
      show "dbFault (decided w) (Suc (dbOps (decided w))) = None" using None first by simp
      show "now (decided w) = now w" by (simp add: decided_frame)
    qed
  next
    case (Some e)
    then have six: "dbFault w (dbOps w + 6) = None" using that by simp
    show ?thesis
    proof (rule stored [OF retry [OF Some]])
      show "dbFault ?w3 (Suc (dbOps ?w3)) = None" using six second by simp
      show "now ?w3 = now w" by (simp add: decided_frame)
    qed
  qed
  have rejected: "fst ?R = Inl (Error (''Failed to send message: Failed to queue message: '' @ e'))
        \<and> pending (snd ?R) = pending w"
    if "dbFault w (dbOps w + 4) = Some e" and "dbFault w (dbOps w + 6) = Some e'" for e e'
  proof -
    have "dbFault ?w3 (Suc (dbOps ?w3)) = Some e'" using that(2) second by simp
    from addMessage_rejected [OF this, of ?md] retry [OF that(1)] show ?thesis
      by (simp add: rethrow_def decided_frame)
  qed
  show ?thesis using h calls accepted rejected by blast
qed

theorem failed_probe_routes_to_queue_witness:
  "\<not> isCacheValid probeDownWorld \<and> probeFailed (healthProbe probeDownWorld)
   \<and> enableSmartRouting exampleWhaple
   \<and> normalizePhoneNumber ''(555) 555-0123'' = Inr ''+5555550123''
   \<and> dbFault probeDownWorld (dbOps probeDownWorld + 4) = None
   \<and> fst (isServerHealthy probeDownWorld) = False
   \<and> apiSent (snd (sendMessage exampleWhaple ''(555) 555-0123'' ''hi'' noOptions probeDownWorld)) = []
   \<and> fst (sendMessage exampleWhaple ''(555) 555-0123'' ''hi'' noOptions probeDownWorld)
       = Inr \<lparr>success = True, resMethod = Queued, messageId = ''uuid-0'', resTimestamp = 2000,
               resPosition = Some 0, error = None\<rparr>
   \<and> map (\<lambda>km. (fst km, number (snd km), message (snd km), status (snd km)))
        (pending (snd (sendMessage exampleWhaple ''(555) 555-0123'' ''hi'' noOptions probeDownWorld)))
       = [(''uuid-0'', ''+5555550123'', ''hi'', Pending)]"
proof -
  have c: "\<not> isCacheValid probeDownWorld" "probeFailed (healthProbe probeDownWorld)"
    by (simp_all add: isCacheValid_def probeFailed_def probeDownWorld_def exampleWorld_def)
  have s: "enableSmartRouting exampleWhaple"
    "\<not> useDirectWhatsApp exampleWhaple \<or> whatsappConnection exampleWhaple = None"
    by (simp_all add: exampleWhaple_def)
  have n: "normalizePhoneNumber ''(555) 555-0123'' = Inr ''+5555550123''"
    by (simp add: normalizePhoneNumber_def keptChar_def isDigit_def startsWith_def)
  have f: "dbFault probeDownWorld (dbOps probeDownWorld + 4) = None" "apiSent probeDownWorld = []"
    by (simp_all add: probeDownWorld_def exampleWorld_def)
  have ev: "fst (sendMessage exampleWhaple ''(555) 555-0123'' ''hi'' noOptions probeDownWorld)
       = Inr \<lparr>success = True, resMethod = Queued, messageId = ''uuid-0'', resTimestamp = 2000,
               resPosition = Some 0, error = None\<rparr>"
    "map (\<lambda>km. (fst km, number (snd km), message (snd km), status (snd km)))
        (pending (snd (sendMessage exampleWhaple ''(555) 555-0123'' ''hi'' noOptions probeDownWorld)))
       = [(''uuid-0'', ''+5555550123'', ''hi'', Pending)]"
    by (simp_all add: sendMessage_def smartRoutingDecision_def shouldUseQueue_def
      normalizePhoneNumber_def keptChar_def isDigit_def startsWith_def buildMessageData_def
      rethrow_def isServerHealthy_def isCacheValid_def checkServerHealth_def
      getQueueStatus_def oncePending_def onceProcessing_def onceHeartbeat_def
      addMessage_def generateMessageId_def getQueuePosition_def setPending_def queuedAtOf_def
      pendingRecord_def queueData_def QueueMessage.extend_def StoredMessage.fields_def
      probeDownWorld_def exampleWorld_def exampleWhaple_def noOptions_def Let_def)
  from failed_probe_routes_to_queue [OF c s n, of "''hi''" noOptions] f
  show ?thesis using c s(1) n ev by simp
qed

text \<open>The probe is made and times out, and the store rejects every operation:
  \<open>isServerHealthy\<close> returns \<open>False\<close>, and \<open>sendMessage\<close> throws.\<close>

theorem failed_probe_counterexample:
  "\<not> isCacheValid (probeDownWorld\<lparr>dbFault := \<lambda>n. Some ''PERMISSION_DENIED''\<rparr>)
   \<and> probeFailed (healthProbe (probeDownWorld\<lparr>dbFault := \<lambda>n. Some ''PERMISSION_DENIED''\<rparr>))
   \<and> isServerHealthy (probeDownWorld\<lparr>dbFault := \<lambda>n. Some ''PERMISSION_DENIED''\<rparr>)
       = (False, probeDownWorld\<lparr>dbFault := \<lambda>n. Some ''PERMISSION_DENIED'', probes := 1,
                                  lastCheck := Some 2000, lastResult := Some False\<rparr>)
   \<and> fst (sendMessage exampleWhaple ''+15555550123'' ''hi'' noOptions
            (probeDownWorld\<lparr>dbFault := \<lambda>n. Some ''PERMISSION_DENIED''\<rparr>))
       = Inl (Error ''Failed to send message: Failed to queue message: PERMISSION_DENIED'')
   \<and> pending (snd (sendMessage exampleWhaple ''+15555550123'' ''hi'' noOptions
                      (probeDownWorld\<lparr>dbFault := \<lambda>n. Some ''PERMISSION_DENIED''\<rparr>)))
       = []"
  by (simp add: sendMessage_def smartRoutingDecision_def shouldUseQueue_def
      normalizePhoneNumber_def keptChar_def isDigit_def startsWith_def buildMessageData_def
      rethrow_def isServerHealthy_def isCacheValid_def checkServerHealth_def probeFailed_def
      getQueueStatus_def oncePending_def onceProcessing_def onceHeartbeat_def emptyStatus_def
      addMessage_def generateMessageId_def getQueuePosition_def setPending_def
      probeDownWorld_def exampleWorld_def exampleWhaple_def noOptions_def Let_def)

section \<open>WhatsAppConnection: reconnection\<close>

lemma scheduleReconnect_while_pending:
  assumes "isReconnecting s" and "reconnectAttempts s < MAX_RECONNECT_ATTEMPTS"
  shows "scheduleReconnect rnd s = s"
  using assms by (simp add: scheduleReconnect_def)

lemma scheduleReconnect_at_ceiling:
  assumes "reconnectAttempts s \<ge> 3"
  shows "scheduleReconnect rnd s = s\<lparr>isReconnecting := False\<rparr>"
  using assms by (simp add: scheduleReconnect_def MAX_RECONNECT_ATTEMPTS_def)

lemma scheduleReconnect_sets_timer:
  assumes "\<not> isReconnecting s" and "reconnectAttempts s < 3"
  shows "timers (scheduleReconnect rnd s) =
           timers s @ [\<lparr>timerId = nextTimerId s,
                         delay = min (5000 * 2 ^ reconnectAttempts s) 60000 + rnd * 1000,
                         callback = ReconnectAttempt\<rparr>]"
  using assms
  by (simp add: scheduleReconnect_def MAX_RECONNECT_ATTEMPTS_def calculateReconnectDelay_def
      BASE_RECONNECT_DELAY_def MAX_RECONNECT_DELAY_def setTimeout_def Let_def)

lemma close_handler_reschedules:
  assumes "connection update = Some Close" and "qr update = None"
    and "statusCode update \<noteq> Some loggedOut" and "statusCode update \<noteq> Some restartRequired"
    and "reconnectAttempts s < 3"
  shows "timers (onConnectionUpdate update t rnd s) =
           timers s @ [\<lparr>timerId = nextTimerId s,
                         delay = min (5000 * 2 ^ reconnectAttempts s) 60000 + rnd * 1000,
                         callback = ReconnectAttempt\<rparr>]"
  using assms
  by (simp add: onConnectionUpdate_def scheduleReconnect_def MAX_RECONNECT_ATTEMPTS_def
      calculateReconnectDelay_def BASE_RECONNECT_DELAY_def MAX_RECONNECT_DELAY_def
      setTimeout_def Let_def)

lemma restart_required_defers:
  assumes "connection update = Some Close" and "qr update = None"
    and "statusCode update = Some restartRequired"
  shows "onConnectionUpdate update t rnd s =
           s\<lparr>isConnected := False, connectionState := ''disconnected'',
             isReconnecting := False, reconnectAttempts := 0,
             timers := timers s @ [\<lparr>timerId = nextTimerId s, delay = 1000,
                                    callback = CallScheduleReconnect\<rparr>],
             nextTimerId := Suc (nextTimerId s)\<rparr>"
  using assms
  by (simp add: onConnectionUpdate_def setTimeout_def loggedOut_def restartRequired_def Let_def)

text \<open>
  Claim C6, at the input where the code departs from it. A connected channel closes with
  status 428: one reconnect timer is set and \<open>isReconnecting\<close> holds. A second closure
  arrives before that timer fires: the handler clears \<open>isReconnecting\<close> before it tests it,
  so a second reconnect timer is set while the first is still pending, and the handle of
  the first is overwritten. It is the same when the second closure comes from a socket
  that a call of \<open>connect()\<close> made in between.
\<close>

theorem second_closure_sets_second_timer:
  "map callback (timers (onConnectionUpdate (closeUpdate 428) 1500 0 exampleConnected))
     = [ReconnectAttempt]
   \<and> isReconnecting (onConnectionUpdate (closeUpdate 428) 1500 0 exampleConnected)
   \<and> reconnectAttempts (onConnectionUpdate (closeUpdate 428) 1500 0 exampleConnected) = 0
   \<and> map (\<lambda>t. (timerId t, callback t))
        (timers (onConnectionUpdate (closeUpdate 428) 1600 0
                   (onConnectionUpdate (closeUpdate 428) 1500 0 exampleConnected)))
     = [(0, ReconnectAttempt), (1, ReconnectAttempt)]
   \<and> reconnectTimeout (onConnectionUpdate (closeUpdate 428) 1600 0
                          (onConnectionUpdate (closeUpdate 428) 1500 0 exampleConnected))
     = Some 1
   \<and> map (\<lambda>t. (timerId t, callback t))
        (timers (onConnectionUpdate (closeUpdate 428) 1600 0
                   (connect True 0
                      (onConnectionUpdate (closeUpdate 428) 1500 0 exampleConnected))))
     = [(0, ReconnectAttempt), (1, ReconnectAttempt)]"
  by (simp add: exampleConnected_def openUpdate_def closeUpdate_def initialConnection_def
      connect_def onConnectionUpdate_def resetReconnectState_def scheduleReconnect_def
      calculateReconnectDelay_def setTimeout_def clearTimeout_def
      MAX_RECONNECT_ATTEMPTS_def BASE_RECONNECT_DELAY_def MAX_RECONNECT_DELAY_def
      loggedOut_def restartRequired_def Let_def)

text \<open>
  Claim C7, at the input where the code departs from it. A channel that has counted one
  reconnect attempt closes with the status "restart required". The handler resets the
  counter to 0 and calls \<open>connect()\<close> neither at once nor from its own timer: it sets a timer
  of 1000 ms that calls \<open>scheduleReconnect\<close>, which sets the backoff timer of
  \<open>5000 + rnd * 1000\<close> ms; \<open>connect()\<close> is called when that one fires, with the counter at 1.
\<close>

theorem restart_required_goes_through_backoff:
  "reconnectAttempts exampleRetried = 1 \<and> connectCalls exampleRetried = 2
   \<and> reconnectAttempts (onConnectionUpdate (closeUpdate restartRequired) 1600 0 exampleRetried) = 0
   \<and> connectCalls (onConnectionUpdate (closeUpdate restartRequired) 1600 0 exampleRetried) = 2
   \<and> timers (onConnectionUpdate (closeUpdate restartRequired) 1600 0 exampleRetried)
       = [\<lparr>timerId = 1, delay = 1000, callback = CallScheduleReconnect\<rparr>]
   \<and> connectCalls (fireTimer 1 True (1 / 2)
                      (onConnectionUpdate (closeUpdate restartRequired) 1600 0 exampleRetried)) = 2
   \<and> timers (fireTimer 1 True (1 / 2)
                (onConnectionUpdate (closeUpdate restartRequired) 1600 0 exampleRetried))
       = [\<lparr>timerId = 2, delay = 5500, callback = ReconnectAttempt\<rparr>]
   \<and> connectCalls (fireTimer 2 True 0 (fireTimer 1 True (1 / 2)
                      (onConnectionUpdate (closeUpdate restartRequired) 1600 0 exampleRetried))) = 3
   \<and> reconnectAttempts (fireTimer 2 True 0 (fireTimer 1 True (1 / 2)
                      (onConnectionUpdate (closeUpdate restartRequired) 1600 0 exampleRetried))) = 1"
  by (simp add: exampleRetried_def exampleConnected_def openUpdate_def closeUpdate_def
      initialConnection_def fireTimer_def
      connect_def onConnectionUpdate_def resetReconnectState_def scheduleReconnect_def
      calculateReconnectDelay_def setTimeout_def clearTimeout_def
      MAX_RECONNECT_ATTEMPTS_def BASE_RECONNECT_DELAY_def MAX_RECONNECT_DELAY_def
      loggedOut_def restartRequired_def Let_def)

section \<open>WhatsAppConnection.sendMessage\<close>

lemma scheduleReconnect_flags:
  "isConnected (scheduleReconnect rnd s) = isConnected s"
  "isAuthenticated (scheduleReconnect rnd s) = isAuthenticated s"
  "connectionState (scheduleReconnect rnd s) = connectionState s"
  "sock (scheduleReconnect rnd s) = sock s"
  by (simp_all add: scheduleReconnect_def setTimeout_def Let_def)

lemma resetReconnectState_flags:
  "isConnected (resetReconnectState s) = isConnected s"
  "isAuthenticated (resetReconnectState s) = isAuthenticated s"
  "connectionState (resetReconnectState s) = connectionState s"
  "sock (resetReconnectState s) = sock s"
  by (simp_all add: resetReconnectState_def clearTimeout_def Let_def split: option.splits)

lemma setTimeout_flags:
  "isConnected (snd (setTimeout cb d s)) = isConnected s"
  "isAuthenticated (snd (setTimeout cb d s)) = isAuthenticated s"
  "connectionState (snd (setTimeout cb d s)) = connectionState s"
  "sock (snd (setTimeout cb d s)) = sock s"
  by (simp_all add: setTimeout_def)

lemma clearTimeout_flags:
  "isConnected (clearTimeout h s) = isConnected s"
  "isAuthenticated (clearTimeout h s) = isAuthenticated s"
  "connectionState (clearTimeout h s) = connectionState s"
  "sock (clearTimeout h s) = sock s"
  by (simp_all add: clearTimeout_def)

text \<open>The flag \<open>isConnected\<close> is raised only by an \<^verbatim>\<open>open\<close> event, together with
  \<open>isAuthenticated\<close> and the state \<^verbatim>\<open>connected\<close>, and every step that leaves one of these
  lowers it.\<close>

lemma connect_keeps_ready:
  assumes "isConnected s \<longrightarrow> isAuthenticated s \<and> connectionState s = ''connected'' \<and> sock s \<noteq> None"
  shows "isConnected (connect ok rnd s)
           \<longrightarrow> isAuthenticated (connect ok rnd s)
               \<and> connectionState (connect ok rnd s) = ''connected''
               \<and> sock (connect ok rnd s) \<noteq> None"
  using assms by (simp add: connect_def Let_def scheduleReconnect_flags)

lemma update_keeps_ready:
  assumes "isConnected s \<longrightarrow> isAuthenticated s \<and> connectionState s = ''connected'' \<and> sock s \<noteq> None"
    and "sock s \<noteq> None"
  shows "isConnected (onConnectionUpdate update t rnd s)
           \<longrightarrow> isAuthenticated (onConnectionUpdate update t rnd s)
               \<and> connectionState (onConnectionUpdate update t rnd s) = ''connected''
               \<and> sock (onConnectionUpdate update t rnd s) \<noteq> None"
proof (cases "connection update")
  case None
  then show ?thesis
    using assms by (simp add: onConnectionUpdate_def Let_def resetReconnectState_flags)
next
  case (Some c)
  then show ?thesis
    using assms
    by (cases c)
      (simp_all add: onConnectionUpdate_def Let_def resetReconnectState_flags
        scheduleReconnect_flags setTimeout_flags split: option.splits)
qed

lemma timer_keeps_ready:
  assumes "isConnected s \<longrightarrow> isAuthenticated s \<and> connectionState s = ''connected'' \<and> sock s \<noteq> None"
  shows "isConnected (fireTimer h ok rnd s)
           \<longrightarrow> isAuthenticated (fireTimer h ok rnd s)
               \<and> connectionState (fireTimer h ok rnd s) = ''connected''
               \<and> sock (fireTimer h ok rnd s) \<noteq> None"
proof (cases "find (\<lambda>t. timerId t = h) (timers s)")
  case None
  then show ?thesis using assms by (simp add: fireTimer_def)
next
  case (Some t)
  let ?s1 = "clearTimeout h s"
  have s1: "isConnected ?s1 \<longrightarrow> isAuthenticated ?s1 \<and> connectionState ?s1 = ''connected'' \<and> sock ?s1 \<noteq> None"
    using assms by (simp add: clearTimeout_flags)
  then have s1': "isConnected (?s1\<lparr>reconnectAttempts := n\<rparr>)
      \<longrightarrow> isAuthenticated (?s1\<lparr>reconnectAttempts := n\<rparr>)
          \<and> connectionState (?s1\<lparr>reconnectAttempts := n\<rparr>) = ''connected''
          \<and> sock (?s1\<lparr>reconnectAttempts := n\<rparr>) \<noteq> None" for n
    by simp
  show ?thesis
  proof (cases "callback t")
    case ReconnectAttempt
    then show ?thesis
      using Some connect_keeps_ready [OF s1'] by (simp add: fireTimer_def Let_def)
  next
    case CallScheduleReconnect
    then show ?thesis
      using Some s1 by (simp add: fireTimer_def Let_def scheduleReconnect_flags)
  next
    case CallConnect
    then show ?thesis
      using Some connect_keeps_ready [OF s1] by (simp add: fireTimer_def Let_def)
  qed
qed

lemma reachable_ready:
  assumes "reachable s"
  shows "isConnected s \<longrightarrow> isAuthenticated s \<and> connectionState s = ''connected'' \<and> sock s \<noteq> None"
  using assms
proof (induction rule: reachable.induct)
  case r_init
  show ?case by (simp add: initialConnection_def)
next
  case (r_connect s ok rnd)
  then show ?case by (intro connect_keeps_ready)
next
  case (r_update s update t rnd)
  then show ?case by (intro update_keeps_ready)
next
  case (r_timer s h ok rnd)
  then show ?case by (intro timer_keeps_ready)
next
  case (r_disconnect s)
  show ?case by (simp add: disconnect_def resetReconnectState_flags)
next
  case (r_forceReconnect s)
  show ?case
    by (simp add: forceReconnect_def disconnect_def Let_def setTimeout_flags
        resetReconnectState_flags)
next
  case (r_resetAuthentication s)
  show ?case
    by (simp add: resetAuthentication_def disconnect_def Let_def setTimeout_flags
        resetReconnectState_flags)
qed

text \<open>
  Claim C8. In every state a connection object can reach: when the channel is not both in
  the state \<^verbatim>\<open>connected\<close> and authenticated, \<open>sendMessage\<close> throws
  \<^verbatim>\<open>WhatsApp not connected\<close> and hands nothing to the socket (the world is unchanged); and
  whenever \<open>sendMessage\<close> returns a result, the channel is connected and authenticated.
\<close>

theorem send_requires_connected_authenticated:
  assumes "reachable s"
  shows "(\<not> (connectionState s = ''connected'' \<and> isAuthenticated s)
            \<longrightarrow> connSendMessage num msg s w = (Inl (Error ''WhatsApp not connected''), w))
         \<and> (\<forall>r w'. connSendMessage num msg s w = (Inr r, w')
               \<longrightarrow> connectionState s = ''connected'' \<and> isAuthenticated s)"
proof -
  note ready = reachable_ready [OF assms]
  have refuse: "connSendMessage num msg s w = (Inl (Error ''WhatsApp not connected''), w)"
    if "\<not> (connectionState s = ''connected'' \<and> isAuthenticated s)"
  proof -
    have "\<not> isConnected s" using that ready by blast
    then show ?thesis by (simp add: connSendMessage_def)
  qed
  have "connectionState s = ''connected'' \<and> isAuthenticated s"
    if "connSendMessage num msg s w = (Inr r, w')" for r w'
  proof (rule ccontr)
    assume "\<not> (connectionState s = ''connected'' \<and> isAuthenticated s)"
    then have "connSendMessage num msg s w = (Inl (Error ''WhatsApp not connected''), w)"
      by (rule refuse)
    then show False using that by simp
  qed
  then show ?thesis using refuse by blast
qed

theorem send_requires_connected_authenticated_witness:
  "reachable initialConnection
   \<and> \<not> (connectionState initialConnection = ''connected'' \<and> isAuthenticated initialConnection)
   \<and> connSendMessage ''+15555550123'' ''hi'' initialConnection (exampleWorld [])
       = (Inl (Error ''WhatsApp not connected''), exampleWorld [])
   \<and> reachable exampleConnected
   \<and> connectionState exampleConnected = ''connected'' \<and> isAuthenticated exampleConnected
   \<and> fst (connSendMessage ''+15555550123'' ''hi'' exampleConnected (exampleWorld []))
       = Inr \<lparr>success = True, resMethod = Direct, messageId = ''key-1'', resTimestamp = 2000,
               resPosition = None, error = None\<rparr>
   \<and> dispatched (snd (connSendMessage ''+15555550123'' ''hi'' exampleConnected (exampleWorld [])))
       = [(''15555550123@s.whatsapp.net'', ''hi'')]"
proof -
  have r0: "reachable initialConnection" by (rule r_init)
  have "sock (connect True 0 initialConnection) \<noteq> None"
    by (simp add: connect_def initialConnection_def)
  then have r1: "reachable exampleConnected"
    unfolding exampleConnected_def by (intro r_update r_connect r_init)
  have st: "connectionState exampleConnected = ''connected''" "isAuthenticated exampleConnected"
    "isConnected exampleConnected" "sock exampleConnected = Some 0"
    by (simp_all add: exampleConnected_def openUpdate_def initialConnection_def connect_def
        onConnectionUpdate_def resetReconnectState_def Let_def)
  have snd: "connSendMessage ''+15555550123'' ''hi'' exampleConnected (exampleWorld [])
      = (Inr \<lparr>success = True, resMethod = Direct, messageId = ''key-1'', resTimestamp = 2000,
               resPosition = None, error = None\<rparr>,
         (exampleWorld [])\<lparr>dispatched := [(''15555550123@s.whatsapp.net'', ''hi'')]\<rparr>)"
    by (simp add: connSendMessage_def st isDigit_def orElse_def exampleWorld_def Let_def)
  from send_requires_connected_authenticated [OF r0, of "''+15555550123''" "''hi''" "exampleWorld []"]
    send_requires_connected_authenticated [OF r1, of "''+15555550123''" "''hi''" "exampleWorld []"]
  show ?thesis using r0 r1 st snd by (simp add: initialConnection_def)
qed

end
